theory Spec2Isabelle
  imports Main
begin

section \<open>Strings\<close>

text \<open>
  A JavaScript string is a sequence of UTF-16 code units; \<open>length\<close> counts code units, as
  \<^verbatim>\<open>String.prototype.length\<close> does. String literals of the source are written
  \<open>js ''...''\<close>.
\<close>

type_synonym js_string = "nat list"

definition js :: "string \<Rightarrow> js_string" where
  "js s = map of_char s"

text \<open>
  The code units that \<^verbatim>\<open>trim\<close>, \<^verbatim>\<open>trimEnd\<close> and the regular expression class
  \<^verbatim>\<open>\s\<close> treat as white space: TAB, LF, VT, FF, CR, SP, NBSP, U+1680, U+2000 to U+200A,
  U+2028, U+2029, U+202F, U+205F, U+3000 and U+FEFF.
\<close>

definition isWhiteSpace :: "nat \<Rightarrow> bool" where
  "isWhiteSpace c \<longleftrightarrow>
     c \<in> set [9, 10, 11, 12, 13, 32, 160, 5760, 8232, 8233, 8239, 8287, 12288, 65279]
     \<or> (8192 \<le> c \<and> c \<le> 8202)"

definition trimStart :: "js_string \<Rightarrow> js_string" where
  "trimStart s = dropWhile isWhiteSpace s"

definition trimEnd :: "js_string \<Rightarrow> js_string" where
  "trimEnd s = rev (dropWhile isWhiteSpace (rev s))"

definition trim :: "js_string \<Rightarrow> js_string" where
  "trim s = trimEnd (trimStart s)"

text \<open>\<^verbatim>\<open>s.replace(/\s+/g, " ")\<close>: every maximal run of white space becomes one space.\<close>

function replaceWhitespaceRuns :: "js_string \<Rightarrow> js_string" where
  "replaceWhitespaceRuns [] = []"
| "replaceWhitespaceRuns (c # cs) =
     (if isWhiteSpace c then 32 # replaceWhitespaceRuns (dropWhile isWhiteSpace cs)
      else c # replaceWhitespaceRuns cs)"
  by pat_completeness auto
termination
proof (relation "measure length")
  show "wf (measure length)" by simp
next
  fix c :: nat and cs :: "nat list"
  have "length (dropWhile isWhiteSpace cs) \<le> length cs" by (rule length_dropWhile_le)
  then show "(dropWhile isWhiteSpace cs, c # cs) \<in> measure length" by simp
next
  fix c :: nat and cs :: "nat list"
  show "(cs, c # cs) \<in> measure length" by simp
qed

text \<open>
  The decimal rendering of a non-negative integer, as a template literal or
  \<^verbatim>\<open>toString()\<close> gives it (the numbers rendered here are list lengths, HTTP status codes
  and clock readings, all far below the 1e21 where JavaScript switches to exponents).
\<close>

function numberToString :: "nat \<Rightarrow> js_string" where
  "numberToString n =
     (if n < 10 then [48 + n] else numberToString (n div 10) @ [48 + n mod 10])"
  by pat_completeness auto
termination
  by (relation "measure id") simp_all

declare numberToString.simps [simp del]

text \<open>Truthiness of a \<^verbatim>\<open>string | null\<close> value: \<^verbatim>\<open>null\<close> and the empty string are falsy.\<close>

definition truthy :: "js_string option \<Rightarrow> bool" where
  "truthy v = (case v of None \<Rightarrow> False | Some s \<Rightarrow> s \<noteq> [])"

section \<open>Title derivation (\<^verbatim>\<open>deriveConversationTitle\<close>, page.tsx)\<close>

definition MAX_AUTO_TITLE_LENGTH :: nat where
  "MAX_AUTO_TITLE_LENGTH = 60"

text \<open>The seed is \<^verbatim>\<open>string | undefined\<close>; \<open>None\<close> is \<^verbatim>\<open>undefined\<close>.\<close>

definition deriveConversationTitle :: "js_string option \<Rightarrow> nat \<Rightarrow> js_string" where
  "deriveConversationTitle seed fallbackIndex =
     (let trimmedSeed = map_option trim seed in
      if truthy trimmedSeed then
        (let normalized = replaceWhitespaceRuns (the trimmedSeed) in
         if length normalized \<le> MAX_AUTO_TITLE_LENGTH then normalized
         else trimEnd (take (MAX_AUTO_TITLE_LENGTH - 3) normalized) @ js ''...'')
      else js ''New Conversation '' @ numberToString fallbackIndex)"

text \<open>
  The normal form in the words of the specification: the seed's words (maximal runs of
  characters that are not white space), joined by single spaces.
\<close>

function wordsOf :: "js_string \<Rightarrow> js_string list" where
  "wordsOf [] = []"
| "wordsOf (c # cs) =
     (if isWhiteSpace c then wordsOf cs
      else (c # takeWhile (\<lambda>x. \<not> isWhiteSpace x) cs)
             # wordsOf (dropWhile (\<lambda>x. \<not> isWhiteSpace x) cs))"
  by pat_completeness auto
termination
proof (relation "measure length")
  show "wf (measure length)" by simp
next
  fix c :: nat and cs :: "nat list"
  show "(cs, c # cs) \<in> measure length" by simp
next
  fix c :: nat and cs :: "nat list"
  have "length (dropWhile (\<lambda>x. \<not> isWhiteSpace x) cs) \<le> length cs"
    by (rule length_dropWhile_le)
  then show "(dropWhile (\<lambda>x. \<not> isWhiteSpace x) cs, c # cs) \<in> measure length" by simp
qed

fun joinWords :: "js_string list \<Rightarrow> js_string" where
  "joinWords [] = []"
| "joinWords [w] = w"
| "joinWords (w # v # ws) = w @ 32 # joinWords (v # ws)"

definition spec_normalized :: "js_string \<Rightarrow> js_string" where
  "spec_normalized seed = joinWords (wordsOf seed)"

section \<open>Data model (api-client.ts)\<close>

text \<open>
  Timestamps are strings. \<open>ISOString t\<close> stands for the string
  \<^verbatim>\<open>new Date(t).toISOString()\<close> of the clock reading \<open>t\<close> (milliseconds); \<open>ServerString\<close> is a
  string that came from the backend. ISO strings of the same format order as their clock
  readings do.
\<close>

datatype date_string = ISOString nat | ServerString js_string


record Conversation =
  conversation_id :: js_string
  title :: js_string
  created_at :: date_string
  updated_at :: date_string

datatype role = User | Assistant

record Message =
  message_id :: "js_string option"
  msg_conversation_id :: js_string
  role :: role
  content :: js_string
  timestamp :: "date_string option"

record Document =
  document_id :: js_string
  doc_conversation_id :: js_string
  filename :: js_string
  file_size :: "nat option"
  upload_date :: date_string
  is_included :: bool
  storage_path :: "js_string option"

text \<open>The browser's \<^verbatim>\<open>File\<close>: its name and its size in bytes.\<close>

record File =
  name :: js_string
  size_f :: nat

text \<open>A thrown value: an \<^verbatim>\<open>Error\<close> with its message, or something else.\<close>

datatype js_error = Error js_string | NonError

text \<open>The remote operations of \<^verbatim>\<open>conversationsApi\<close>, \<^verbatim>\<open>messagesApi\<close> and \<^verbatim>\<open>documentsApi\<close>.\<close>

datatype api_call =
    ConversationsList
  | ConversationsCreate js_string
  | ConversationsDelete js_string
  | ConversationsRename js_string js_string
  | MessagesList js_string
  | MessagesSend js_string js_string
  | DocumentsList js_string
  | DocumentsUpload js_string File
  | DocumentsDelete js_string js_string
  | DocumentsToggleInclude js_string js_string bool
  | DocumentsGetSignedUrl js_string js_string

text \<open>A notification: \<^verbatim>\<open>toast({title, description, variant})\<close>.\<close>

datatype toast = Toast js_string js_string bool

definition errorToast :: "string \<Rightarrow> toast" where
  "errorToast description = Toast (js ''Error'') (js description) True"

definition successToast :: "js_string \<Rightarrow> toast" where
  "successToast description = Toast (js ''Success'') description False"

section \<open>The page's state (\<^verbatim>\<open>AppPage\<close>, page.tsx)\<close>

record EnsureConversationResult =
  conversationId :: js_string
  created :: bool

datatype 'a promise_state = Pending | Fulfilled 'a | Rejected js_error

text \<open>
  The promise of one creation (the \<^verbatim>\<open>creationPromise\<close> of \<^verbatim>\<open>ensureActiveConversation\<close>) with
  what its body captured: the derived title and \<^verbatim>\<open>isMobile\<close>. Promises are identified by
  their index in \<open>creationPromises\<close>.
\<close>

record creation_promise =
  cp_title :: js_string
  cp_isMobile :: bool
  cp_state :: "EnsureConversationResult promise_state"

text \<open>
  A health check suspended at \<^verbatim>\<open>await fetch(...)\<close>: the paths of the loop from the one being
  fetched on, and \<^verbatim>\<open>lastErrorMessage\<close>.
\<close>

record health_task =
  ht_paths :: "js_string list"
  ht_lastErrorMessage :: js_string

text \<open>
  The \<^verbatim>\<open>useState\<close> and \<^verbatim>\<open>useRef\<close> values of the component under their own names, then what
  the component reads from its hooks (\<open>isMobile\<close>, \<open>user\<close>), the clock behind
  \<^verbatim>\<open>Date.now()\<close>, and a record of the component's effects on the outside: the notifications
  shown, the remote calls issued through the API client, the health URLs fetched, whether the
  polling interval is set, the suspended health check, the timers of offline replies, and the
  creation promises.
\<close>

record AppPage =
  conversations :: "Conversation list"
  selectedConversationId :: "js_string option"
  messages :: "Message list"
  documents :: "Document list"
  loading :: bool
  sendingMessage :: bool
  previewDoc :: "(js_string \<times> js_string) option"
  previewingDocId :: "js_string option"
  isConversationsSidebarOpen :: bool
  isDocumentsPanelOpen :: bool
  backendReady :: bool
  backendChecking :: bool
  backendRetryCount :: nat
  backendLastError :: "js_string option"
  isMountedRef :: bool
  healthCheckInFlightRef :: bool
  conversationCreationRef :: "nat option"
  hasLoadedConversationsRef :: bool
  isMobile :: bool
  user :: bool
  clock :: nat
  toasts :: "toast list"
  apiCalls :: "api_call list"
  fetchCalls :: "js_string list"
  healthInterval :: bool
  healthTask :: "health_task option"
  mockReplyTimers :: "js_string list"
  creationPromises :: "creation_promise list"

definition notify :: "toast \<Rightarrow> AppPage \<Rightarrow> AppPage" where
  "notify t s = s\<lparr>toasts := toasts s @ [t]\<rparr>"

definition callApi :: "api_call \<Rightarrow> AppPage \<Rightarrow> AppPage" where
  "callApi c s = s\<lparr>apiCalls := apiCalls s @ [c]\<rparr>"

definition now :: "AppPage \<Rightarrow> date_string" where
  "now s = ISOString (clock s)"

section \<open>Single-flight creation (\<^verbatim>\<open>ensureActiveConversation\<close>)\<close>

text \<open>
  What a call has in hand when it reaches its first suspension: the result (a conversation
  was selected), or the promise it awaits.
\<close>

datatype ensure_call = Resolved EnsureConversationResult | Awaits nat

text \<open>
  The body of the creation runs synchronously up to \<^verbatim>\<open>await conversationsApi.create\<close>, so the
  remote call is issued when the promise is made.
\<close>

definition startCreation :: "js_string option \<Rightarrow> AppPage \<Rightarrow> AppPage" where
  "startCreation seedTitle s =
     (let fallbackTitle = deriveConversationTitle seedTitle (length (conversations s) + 1) in
      (callApi (ConversationsCreate fallbackTitle) s)
        \<lparr>conversationCreationRef := Some (length (creationPromises s)),
         creationPromises := creationPromises s
           @ [\<lparr>cp_title = fallbackTitle, cp_isMobile = isMobile s, cp_state = Pending\<rparr>]\<rparr>)"

definition ensureActiveConversation :: "js_string option \<Rightarrow> AppPage \<Rightarrow> ensure_call \<times> AppPage" where
  "ensureActiveConversation seedTitle s =
     (if truthy (selectedConversationId s) then
        (Resolved \<lparr>conversationId = the (selectedConversationId s), created = False\<rparr>, s)
      else
        (case conversationCreationRef s of
           None \<Rightarrow> (Awaits (length (creationPromises s)), startCreation seedTitle s)
         | Some pendingCreation \<Rightarrow> (Awaits pendingCreation, s)))"

text \<open>The rest of the creation's body, when \<^verbatim>\<open>conversationsApi.create\<close> settles.\<close>

definition creationSettled :: "nat \<Rightarrow> js_error + js_string \<Rightarrow> AppPage \<Rightarrow> AppPage" where
  "creationSettled p outcome s =
     (if p < length (creationPromises s) \<and> cp_state (creationPromises s ! p) = Pending then
        (let task = creationPromises s ! p in
         case outcome of
           Inl e \<Rightarrow>
             s\<lparr>creationPromises := (creationPromises s)[p := task\<lparr>cp_state := Rejected e\<rparr>]\<rparr>
         | Inr cid \<Rightarrow>
             (let newConversation =
                    \<lparr>conversation_id = cid, title = cp_title task,
                     created_at = now s, updated_at = now s\<rparr>
              in s\<lparr>conversations := newConversation # conversations s,
                   selectedConversationId := Some cid,
                   messages := [],
                   documents := [],
                   isConversationsSidebarOpen :=
                     (if cp_isMobile task then False else isConversationsSidebarOpen s),
                   creationPromises := (creationPromises s)
                     [p := task\<lparr>cp_state :=
                        Fulfilled \<lparr>conversationId = cid, created = True\<rparr>\<rparr>]\<rparr>))
      else s)"

text \<open>
  A caller resumes from \<^verbatim>\<open>await pendingCreation\<close> once the promise has settled: it gets the
  promise's result or error, and its \<^verbatim>\<open>finally\<close> clears the ref if the ref still holds that
  promise. \<open>None\<close>: the promise has not settled, the caller stays suspended.
\<close>

definition ensureResumed ::
  "nat \<Rightarrow> AppPage \<Rightarrow> ((js_error + EnsureConversationResult) \<times> AppPage) option" where
  "ensureResumed pendingCreation s =
     (if pendingCreation < length (creationPromises s) then
        (let s' = (if conversationCreationRef s = Some pendingCreation
                   then s\<lparr>conversationCreationRef := None\<rparr> else s)
         in case cp_state (creationPromises s ! pendingCreation) of
              Pending \<Rightarrow> None
            | Fulfilled r \<Rightarrow> Some (Inr r, s')
            | Rejected e \<Rightarrow> Some (Inl e, s'))
      else None)"

text \<open>What \<^verbatim>\<open>await ensureActiveConversation(...)\<close> gives its caller.\<close>

definition awaitEnsure ::
  "ensure_call \<Rightarrow> AppPage \<Rightarrow> ((js_error + EnsureConversationResult) \<times> AppPage) option" where
  "awaitEnsure c s = (case c of Resolved r \<Rightarrow> Some (Inr r, s) | Awaits p \<Rightarrow> ensureResumed p s)"

section \<open>Readiness (\<^verbatim>\<open>runHealthCheck\<close> and its polling effect)\<close>

datatype fetch_outcome = Response nat | FetchThrew js_error

definition healthCheckFinally :: "AppPage \<Rightarrow> AppPage" where
  "healthCheckFinally s =
     (if isMountedRef s then s\<lparr>backendChecking := False\<rparr> else s)
       \<lparr>healthCheckInFlightRef := False, healthTask := None\<rparr>"

text \<open>The code after the loop over the health paths.\<close>

definition healthCheckFinish :: "bool \<Rightarrow> js_string \<Rightarrow> AppPage \<Rightarrow> AppPage" where
  "healthCheckFinish reachable lastErrorMessage s =
     (if reachable \<and> isMountedRef s then
        healthCheckFinally
          (s\<lparr>backendReady := True, backendLastError := None, backendRetryCount := 0\<rparr>)
      else
        (let s1 = healthCheckFinally s in
         if isMountedRef s1 \<and> \<not> reachable then
           s1\<lparr>backendLastError := Some lastErrorMessage,
              backendRetryCount := backendRetryCount s1 + 1\<rparr>
         else s1))"

text \<open>One turn of the loop: fetch the next path and suspend, or leave the loop.\<close>

fun healthCheckProbe :: "js_string list \<Rightarrow> js_string \<Rightarrow> AppPage \<Rightarrow> AppPage" where
  "healthCheckProbe [] lastErrorMessage s = healthCheckFinish False lastErrorMessage s"
| "healthCheckProbe (path # rest) lastErrorMessage s =
     s\<lparr>fetchCalls := fetchCalls s @ [path],
       healthTask := Some \<lparr>ht_paths = path # rest, ht_lastErrorMessage = lastErrorMessage\<rparr>\<rparr>"

definition healthPaths :: "js_string list" where
  "healthPaths = [js ''/health'', js ''/'']"

definition runHealthCheck :: "AppPage \<Rightarrow> AppPage" where
  "runHealthCheck s =
     (if backendReady s \<or> healthCheckInFlightRef s \<or> \<not> isMountedRef s then s
      else healthCheckProbe healthPaths (js ''Unable to reach backend'')
             (s\<lparr>healthCheckInFlightRef := True, backendChecking := True\<rparr>))"

text \<open>The suspended check resumes when its \<^verbatim>\<open>fetch\<close> settles.\<close>

definition healthProbeSettled :: "fetch_outcome \<Rightarrow> AppPage \<Rightarrow> AppPage" where
  "healthProbeSettled outcome s =
     (case healthTask s of
        None \<Rightarrow> s
      | Some task \<Rightarrow>
          (case ht_paths task of
             [] \<Rightarrow> s
           | path # rest \<Rightarrow>
               (case outcome of
                  Response status \<Rightarrow>
                    if status < 500 then healthCheckFinish True (ht_lastErrorMessage task) s
                    else healthCheckProbe rest
                           (js ''Backend responded with status '' @ numberToString status
                              @ js '' at '' @ path) s
                | FetchThrew e \<Rightarrow>
                    healthCheckProbe rest
                      (case e of Error m \<Rightarrow> m | NonError \<Rightarrow> js ''Unable to reach backend'') s)))"

text \<open>
  The polling effect, run when \<open>backendReady\<close> changes: the previous run's cleanup clears the
  interval; while not ready the check runs once and the interval is set again.
\<close>

definition healthEffect :: "AppPage \<Rightarrow> AppPage" where
  "healthEffect s =
     (let s0 = s\<lparr>healthInterval := False\<rparr> in
      if backendReady s0 then s0 else (runHealthCheck s0)\<lparr>healthInterval := True\<rparr>)"

definition intervalTick :: "AppPage \<Rightarrow> AppPage" where
  "intervalTick s = (if healthInterval s then runHealthCheck s else s)"

section \<open>List loads\<close>

text \<open>
  Every asynchronous handler is modelled by the part that runs when it is called, up to its
  first \<^verbatim>\<open>await\<close>, and the part that runs when the awaited call settles (\<open>Inr\<close> the value,
  \<open>Inl\<close> the thrown error). A handler is called from the latest render, so what the first
  part reads from its closure is the state at the call. What the second part reads from the
  closure of the call (the
  render's \<^verbatim>\<open>selectedConversationId\<close>, \<^verbatim>\<open>conversations\<close>, \<^verbatim>\<open>isMobile\<close>; the handler's own
  locals) is a parameter of it; state updates written with an updater function read the state
  at the time they are applied.
\<close>

definition loadConversations :: "AppPage \<Rightarrow> bool \<times> AppPage" where
  "loadConversations s =
     (let shouldShowInitialSpinner = (conversations s = [] \<and> \<not> hasLoadedConversationsRef s);
          s1 = (if shouldShowInitialSpinner then s\<lparr>loading := True\<rparr> else s)
      in (shouldShowInitialSpinner, callApi ConversationsList s1))"

definition mockConversation :: "AppPage \<Rightarrow> Conversation" where
  "mockConversation s =
     \<lparr>conversation_id = js ''1'', title = js ''Getting Started'',
      created_at = now s, updated_at = now s\<rparr>"

definition loadConversationsSettled ::
  "js_string option \<Rightarrow> bool \<Rightarrow> js_error + Conversation list \<Rightarrow> AppPage \<Rightarrow> AppPage" where
  "loadConversationsSettled selectedId shouldShowInitialSpinner outcome s =
     (let s1 =
        (case outcome of
           Inr loadedConversations \<Rightarrow>
             (let s0 = s\<lparr>conversations := loadedConversations\<rparr> in
              case loadedConversations of
                [] \<Rightarrow> s0
              | c # _ \<Rightarrow>
                  if \<not> truthy selectedId
                  then s0\<lparr>selectedConversationId := Some (conversation_id c)\<rparr> else s0)
         | Inl e \<Rightarrow>
             (let s0 = (notify (errorToast ''Failed to load conversations. Using offline mode.'') s)
                         \<lparr>conversations := [mockConversation s]\<rparr>
              in if \<not> truthy selectedId
                 then s0\<lparr>selectedConversationId := Some (conversation_id (mockConversation s))\<rparr>
                 else s0));
          s2 = s1\<lparr>hasLoadedConversationsRef := True\<rparr>
      in if shouldShowInitialSpinner then s2\<lparr>loading := False\<rparr> else s2)"

definition loadMessages :: "js_string \<Rightarrow> AppPage \<Rightarrow> AppPage" where
  "loadMessages cid s = callApi (MessagesList cid) s"

definition mockMessage :: "js_string \<Rightarrow> AppPage \<Rightarrow> Message" where
  "mockMessage cid s =
     \<lparr>message_id = Some (js ''1''), msg_conversation_id = cid, role = Assistant,
      content = js (''Hello! I'' @ [CHR 0x27] @ ''m your AI assistant. ''
                     @ ''Upload some documents and ask me questions about them.''),
      timestamp = Some (now s)\<rparr>"

definition loadMessagesSettled :: "js_string \<Rightarrow> js_error + Message list \<Rightarrow> AppPage \<Rightarrow> AppPage" where
  "loadMessagesSettled cid outcome s =
     (case outcome of
        Inr loadedMessages \<Rightarrow> s\<lparr>messages := loadedMessages\<rparr>
      | Inl e \<Rightarrow>
          (notify (errorToast ''Failed to load messages. Using offline mode.'') s)
            \<lparr>messages := [mockMessage cid s]\<rparr>)"

definition loadDocuments :: "js_string \<Rightarrow> AppPage \<Rightarrow> AppPage" where
  "loadDocuments cid s = callApi (DocumentsList cid) s"

definition loadDocumentsSettled :: "js_string \<Rightarrow> js_error + Document list \<Rightarrow> AppPage \<Rightarrow> AppPage" where
  "loadDocumentsSettled cid outcome s =
     (case outcome of
        Inr loadedDocuments \<Rightarrow> s\<lparr>documents := loadedDocuments\<rparr>
      | Inl e \<Rightarrow>
          (notify (errorToast ''Failed to load documents. Using offline mode.'') s)
            \<lparr>documents := []\<rparr>)"

section \<open>Conversation handlers\<close>

definition newConversationTitle :: "nat \<Rightarrow> js_string" where
  "newConversationTitle n = js ''New Conversation '' @ numberToString n"

definition handleCreateConversation :: "AppPage \<Rightarrow> AppPage" where
  "handleCreateConversation s =
     callApi (ConversationsCreate (newConversationTitle (length (conversations s) + 1))) s"

text \<open>
  The closure's \<^verbatim>\<open>conversations\<close> and \<^verbatim>\<open>isMobile\<close> are parameters: the title is computed from
  the closure's list, and the offline branch prepends to the closure's list, not to the
  current one.
\<close>

definition handleCreateConversationSettled ::
  "Conversation list \<Rightarrow> bool \<Rightarrow> js_error + js_string \<Rightarrow> AppPage \<Rightarrow> AppPage" where
  "handleCreateConversationSettled closureConversations closureIsMobile outcome s =
     (let title = newConversationTitle (length closureConversations + 1) in
      case outcome of
        Inr cid \<Rightarrow>
          (let newConversation =
                 \<lparr>conversation_id = cid, title = title, created_at = now s, updated_at = now s\<rparr>
           in notify (successToast (js ''Conversation created successfully''))
                (s\<lparr>conversations := newConversation # conversations s,
                   selectedConversationId := Some cid,
                   isConversationsSidebarOpen :=
                     (if closureIsMobile then False else isConversationsSidebarOpen s)\<rparr>))
      | Inl e \<Rightarrow>
          (let newConversation =
                 \<lparr>conversation_id = numberToString (clock s), title = title,
                  created_at = now s, updated_at = now s\<rparr>
           in (notify (errorToast ''Failed to create conversation. Using offline mode.'') s)
                \<lparr>conversations := newConversation # closureConversations,
                 selectedConversationId := Some (conversation_id newConversation)\<rparr>))"

definition handleSelectConversation :: "js_string \<Rightarrow> AppPage \<Rightarrow> AppPage" where
  "handleSelectConversation cid s =
     s\<lparr>selectedConversationId := Some cid,
       isConversationsSidebarOpen := (if isMobile s then False else isConversationsSidebarOpen s)\<rparr>"

definition handleDeleteConversation :: "js_string \<Rightarrow> AppPage \<Rightarrow> AppPage" where
  "handleDeleteConversation cid s = callApi (ConversationsDelete cid) s"

text \<open>
  \<open>selectedId\<close> is the closure's \<^verbatim>\<open>selectedConversationId\<close>. The result is how the handler's
  promise settles: \<open>Inr ()\<close> it returns, \<open>Inl e\<close> it throws.
\<close>

definition handleDeleteConversationSettled ::
  "js_string option \<Rightarrow> js_string \<Rightarrow> js_error + unit \<Rightarrow> AppPage \<Rightarrow> (js_error + unit) \<times> AppPage" where
  "handleDeleteConversationSettled selectedId cid outcome s =
     (case outcome of
        Inr _ \<Rightarrow>
          (let remaining = filter (\<lambda>c. conversation_id c \<noteq> cid) (conversations s);
               s1 = (if selectedId = Some cid then
                       s\<lparr>selectedConversationId :=
                            (case remaining of [] \<Rightarrow> None | c # _ \<Rightarrow> Some (conversation_id c)),
                         messages := [],
                         documents := [],
                         previewDoc := None,
                         previewingDocId := None\<rparr>
                     else s)
           in (Inr (), notify (successToast (js ''Conversation deleted successfully''))
                         (s1\<lparr>conversations := remaining\<rparr>)))
      | Inl e \<Rightarrow> (Inr (), notify (errorToast ''Failed to delete conversation'') s))"

definition handleRenameConversation :: "js_string \<Rightarrow> js_string \<Rightarrow> AppPage \<Rightarrow> AppPage" where
  "handleRenameConversation cid newTitle s = callApi (ConversationsRename cid newTitle) s"

definition handleRenameConversationSettled ::
  "js_string \<Rightarrow> js_string \<Rightarrow> js_error + unit \<Rightarrow> AppPage \<Rightarrow> (js_error + unit) \<times> AppPage" where
  "handleRenameConversationSettled cid newTitle outcome s =
     (case outcome of
        Inr _ \<Rightarrow>
          (Inr (),
           notify (Toast (js ''Conversation renamed'') (js ''Title updated successfully'') False)
             (s\<lparr>conversations :=
                  map (\<lambda>conversation.
                         if conversation_id conversation = cid
                         then conversation\<lparr>title := newTitle, updated_at := now s\<rparr>
                         else conversation)
                      (conversations s)\<rparr>))
      | Inl e \<Rightarrow> (Inl e, notify (errorToast ''Failed to rename conversation'') s))"

section \<open>The rename dialog (\<^verbatim>\<open>handleConfirmRename\<close>, conversations-sidebar.tsx)\<close>

record ConversationsSidebar =
  deleteDialogOpen :: bool
  conversationToDelete :: "js_string option"
  renameDialogOpen :: bool
  conversationToRename :: "js_string option"
  renameValue :: js_string
  renaming :: bool

text \<open>
  The call either returns at the guard (\<open>None\<close>) or sets \<open>renaming\<close> and calls the page's
  \<^verbatim>\<open>onRenameConversation\<close> with the trimmed title (\<open>Some\<close> of the call's arguments).
\<close>

definition handleConfirmRename ::
  "ConversationsSidebar \<Rightarrow> AppPage \<Rightarrow> (js_string \<times> js_string) option \<times> ConversationsSidebar \<times> AppPage" where
  "handleConfirmRename sb s =
     (if \<not> truthy (conversationToRename sb) \<or> trim (renameValue sb) = [] then (None, sb, s)
      else
        (let cid = the (conversationToRename sb); newTitle = trim (renameValue sb) in
         (Some (cid, newTitle), sb\<lparr>renaming := True\<rparr>, handleRenameConversation cid newTitle s)))"

text \<open>The rest of \<^verbatim>\<open>handleConfirmRename\<close>, given how \<^verbatim>\<open>onRenameConversation\<close> settled.\<close>

definition handleConfirmRenameSettled :: "js_error + unit \<Rightarrow> ConversationsSidebar \<Rightarrow> ConversationsSidebar" where
  "handleConfirmRenameSettled result sb =
     (case result of
        Inr _ \<Rightarrow> sb\<lparr>renameDialogOpen := False, conversationToRename := None,
                   renameValue := [], renaming := False\<rparr>
      | Inl e \<Rightarrow> sb\<lparr>renaming := False\<rparr>)"

section \<open>Sending a message (\<^verbatim>\<open>handleSendMessage\<close>)\<close>

text \<open>
  The call: the guard on \<open>sendingMessage\<close>, then \<^verbatim>\<open>ensureActiveConversation(content)\<close>.
  \<open>None\<close>: the handler returned at the guard.
\<close>

definition handleSendMessage :: "js_string \<Rightarrow> AppPage \<Rightarrow> ensure_call option \<times> AppPage" where
  "handleSendMessage content_in s =
     (if sendingMessage s then (None, s)
      else
        (let (c, s1) = ensureActiveConversation (Some content_in) (s\<lparr>sendingMessage := True\<rparr>)
         in (Some c, s1)))"

definition userMessage :: "js_string \<Rightarrow> js_string \<Rightarrow> AppPage \<Rightarrow> Message" where
  "userMessage cid content_in s =
     \<lparr>message_id = Some (js ''temp-'' @ numberToString (clock s)),
      msg_conversation_id = cid, role = User, content = content_in,
      timestamp = Some (now s)\<rparr>"

text \<open>
  After \<^verbatim>\<open>await ensureActiveConversation\<close>. \<open>Some cid\<close>: the user message is appended and
  \<^verbatim>\<open>messagesApi.send\<close> is awaited, with \<open>ensuredConversationId = cid\<close> and
  \<open>userMessageAppended = true\<close>. \<open>None\<close>: the handler is over (the \<^verbatim>\<open>catch\<close> ran with
  \<open>ensuredConversationId = null\<close>, then the \<^verbatim>\<open>finally\<close>).
\<close>

definition handleSendMessageEnsured ::
  "js_string \<Rightarrow> js_error + EnsureConversationResult \<Rightarrow> AppPage \<Rightarrow> js_string option \<times> AppPage" where
  "handleSendMessageEnsured content_in ensured s =
     (case ensured of
        Inr r \<Rightarrow>
          (let ensuredConversationId = conversationId r in
           (Some ensuredConversationId,
            callApi (MessagesSend ensuredConversationId content_in)
              (s\<lparr>messages := messages s @ [userMessage ensuredConversationId content_in s]\<rparr>)))
      | Inl e \<Rightarrow>
          (None, (notify (errorToast ''Failed to send message. Using offline mode.'') s)
                   \<lparr>sendingMessage := False\<rparr>))"

text \<open>
  The assistant message that \<^verbatim>\<open>messagesApi.send\<close> builds from the answer when the response
  arrives; \<open>uuid\<close> is \<^verbatim>\<open>crypto.randomUUID()\<close> where it exists.
\<close>

definition assistantMessage :: "js_string \<Rightarrow> js_string \<Rightarrow> js_string option \<Rightarrow> AppPage \<Rightarrow> Message" where
  "assistantMessage cid answer uuid s =
     \<lparr>message_id = Some (js ''assistant-''
                            @ (case uuid of Some u \<Rightarrow> u | None \<Rightarrow> numberToString (clock s))),
      msg_conversation_id = cid, role = Assistant, content = answer,
      timestamp = Some (now s)\<rparr>"

definition handleSendMessageSettled ::
  "js_string \<Rightarrow> js_error + js_string \<times> js_string option \<Rightarrow> AppPage \<Rightarrow> AppPage" where
  "handleSendMessageSettled ensuredConversationId outcome s =
     (case outcome of
        Inr (answer, uuid) \<Rightarrow>
          s\<lparr>messages := messages s @ [assistantMessage ensuredConversationId answer uuid s],
            sendingMessage := False\<rparr>
      | Inl e \<Rightarrow>
          (let s1 = notify (errorToast ''Failed to send message. Using offline mode.'') s;
               s2 = (if truthy (Some ensuredConversationId)
                     then s1\<lparr>mockReplyTimers := mockReplyTimers s1 @ [ensuredConversationId]\<rparr>
                     else s1)
           in s2\<lparr>sendingMessage := False\<rparr>))"

definition mockReply :: "js_string \<Rightarrow> AppPage \<Rightarrow> Message" where
  "mockReply fallbackConversationId s =
     \<lparr>message_id = Some (numberToString (clock s + 1)),
      msg_conversation_id = fallbackConversationId, role = Assistant,
      content = js (''This is a mock response. Connect to your backend API to get real AI ''
                     @ ''responses based on your documents.''),
      timestamp = Some (now s)\<rparr>"

text \<open>
  The \<open>i\<close>-th pending timer of an offline reply fires (\<^verbatim>\<open>setTimeout(..., 1000)\<close>): the reply is
  appended to whatever the message list is then.
\<close>

definition mockReplyTimeout :: "nat \<Rightarrow> AppPage \<Rightarrow> AppPage" where
  "mockReplyTimeout i s =
     (if i < length (mockReplyTimers s) then
        s\<lparr>messages := messages s @ [mockReply (mockReplyTimers s ! i) s],
          mockReplyTimers := take i (mockReplyTimers s) @ drop (Suc i) (mockReplyTimers s)\<rparr>
      else s)"

section \<open>Documents\<close>

definition handleUploadDocument :: "AppPage \<Rightarrow> ensure_call \<times> AppPage" where
  "handleUploadDocument s = ensureActiveConversation None s"

definition handleUploadDocumentEnsured ::
  "File \<Rightarrow> js_error + EnsureConversationResult \<Rightarrow> AppPage \<Rightarrow> js_string option \<times> AppPage" where
  "handleUploadDocumentEnsured file ensured s =
     (case ensured of
        Inr r \<Rightarrow> (Some (conversationId r), callApi (DocumentsUpload (conversationId r) file) s)
      | Inl e \<Rightarrow>
          (None, notify (errorToast ''Failed to upload document. Using offline mode.'') s))"

text \<open>The document that \<^verbatim>\<open>documentsApi.upload\<close> builds from the response.\<close>

definition uploadedDocument :: "js_string \<Rightarrow> File \<Rightarrow> js_string \<Rightarrow> js_string \<Rightarrow> AppPage \<Rightarrow> Document" where
  "uploadedDocument cid file doc_id path s =
     \<lparr>document_id = doc_id, doc_conversation_id = cid, filename = name file,
      file_size = None, upload_date = now s, is_included = True, storage_path = Some path\<rparr>"

definition localDocument :: "js_string \<Rightarrow> File \<Rightarrow> AppPage \<Rightarrow> Document" where
  "localDocument cid file s =
     \<lparr>document_id = numberToString (clock s), doc_conversation_id = cid, filename = name file,
      file_size = Some (size_f file), upload_date = now s, is_included = True,
      storage_path = None\<rparr>"

definition handleUploadDocumentSettled ::
  "js_string \<Rightarrow> File \<Rightarrow> js_error + js_string \<times> js_string \<Rightarrow> AppPage \<Rightarrow> AppPage" where
  "handleUploadDocumentSettled ensuredConversationId file outcome s =
     (case outcome of
        Inr (doc_id, path) \<Rightarrow>
          notify (successToast (name file @ js '' uploaded successfully''))
            (s\<lparr>documents := documents s
                  @ [uploadedDocument ensuredConversationId file doc_id path s]\<rparr>)
      | Inl e \<Rightarrow>
          (let s1 = notify (errorToast ''Failed to upload document. Using offline mode.'') s in
           if truthy (Some ensuredConversationId)
           then s1\<lparr>documents := documents s1 @ [localDocument ensuredConversationId file s1]\<rparr>
           else s1))"

definition handleDeleteDocument :: "js_string \<Rightarrow> AppPage \<Rightarrow> bool \<times> AppPage" where
  "handleDeleteDocument documentId s =
     (if \<not> truthy (selectedConversationId s) then (False, s)
      else (True, callApi (DocumentsDelete (the (selectedConversationId s)) documentId) s))"

definition handleDeleteDocumentSettled ::
  "js_string \<Rightarrow> js_error + unit \<Rightarrow> AppPage \<Rightarrow> (js_error + unit) \<times> AppPage" where
  "handleDeleteDocumentSettled documentId outcome s =
     (case outcome of
        Inr _ \<Rightarrow>
          (Inr (), notify (successToast (js ''Document deleted successfully''))
                     (s\<lparr>documents := filter (\<lambda>d. document_id d \<noteq> documentId) (documents s)\<rparr>))
      | Inl e \<Rightarrow> (Inr (), notify (errorToast ''Failed to delete document'') s))"

text \<open>\<open>False\<close>: the handler returned at its guard, no call was made.\<close>

definition handleToggleDocumentInclude :: "js_string \<Rightarrow> bool \<Rightarrow> AppPage \<Rightarrow> bool \<times> AppPage" where
  "handleToggleDocumentInclude documentId isIncluded s =
     (if \<not> truthy (selectedConversationId s) then (False, s)
      else (True, callApi (DocumentsToggleInclude (the (selectedConversationId s))
                             documentId isIncluded) s))"

definition handleToggleDocumentIncludeSettled ::
  "js_string \<Rightarrow> bool \<Rightarrow> js_error + unit \<Rightarrow> AppPage \<Rightarrow> (js_error + unit) \<times> AppPage" where
  "handleToggleDocumentIncludeSettled documentId isIncluded outcome s =
     (case outcome of
        Inr _ \<Rightarrow>
          (Inr (), s\<lparr>documents :=
                       map (\<lambda>d. if document_id d = documentId
                                 then d\<lparr>is_included := isIncluded\<rparr> else d)
                           (documents s)\<rparr>)
      | Inl e \<Rightarrow> (Inr (), notify (errorToast ''Failed to update document'') s))"

text \<open>
  The call returns the closure's \<^verbatim>\<open>documentMeta\<close> for the second part; \<open>None\<close>: the handler
  returned at its guard.
\<close>

definition handlePreviewDocument :: "js_string \<Rightarrow> AppPage \<Rightarrow> Document option option \<times> AppPage" where
  "handlePreviewDocument documentId s =
     (if \<not> truthy (selectedConversationId s) then (None, s)
      else
        (Some (find (\<lambda>doc. document_id doc = documentId) (documents s)),
         callApi (DocumentsGetSignedUrl (the (selectedConversationId s)) documentId)
           (s\<lparr>previewingDocId := Some documentId\<rparr>)))"

definition handlePreviewDocumentSettled ::
  "Document option \<Rightarrow> js_error + js_string \<Rightarrow> AppPage \<Rightarrow> AppPage" where
  "handlePreviewDocumentSettled documentMeta outcome s =
     (let s1 =
        (case outcome of
           Inr signed_url \<Rightarrow>
             s\<lparr>previewDoc :=
                 Some (signed_url,
                       case documentMeta of Some d \<Rightarrow> filename d
                                          | None \<Rightarrow> js ''Document preview'')\<rparr>
         | Inl e \<Rightarrow> notify (errorToast ''Failed to preview document'') s)
      in s1\<lparr>previewingDocId := None\<rparr>)"

section \<open>Panels\<close>

definition toggleConversationsSidebar :: "AppPage \<Rightarrow> AppPage" where
  "toggleConversationsSidebar s =
     (let next = \<not> isConversationsSidebarOpen s;
          s1 = (if next \<and> isMobile s then s\<lparr>isDocumentsPanelOpen := False\<rparr> else s)
      in s1\<lparr>isConversationsSidebarOpen := next\<rparr>)"

definition toggleDocumentsPanel :: "AppPage \<Rightarrow> AppPage" where
  "toggleDocumentsPanel s =
     (let next = \<not> isDocumentsPanelOpen s;
          s1 = (if next \<and> isMobile s then s\<lparr>isConversationsSidebarOpen := False\<rparr> else s)
      in s1\<lparr>isDocumentsPanelOpen := next\<rparr>)"

section \<open>Effects\<close>

definition mobileEffect :: "AppPage \<Rightarrow> AppPage" where
  "mobileEffect s =
     (if isMobile s then s\<lparr>isConversationsSidebarOpen := False, isDocumentsPanelOpen := False\<rparr>
      else s\<lparr>isConversationsSidebarOpen := True, isDocumentsPanelOpen := True\<rparr>)"

definition loadConversationsEffect :: "AppPage \<Rightarrow> AppPage" where
  "loadConversationsEffect s = (if user s \<and> backendReady s then snd (loadConversations s) else s)"

text \<open>The selection effect: the two loads of the selected conversation are started.\<close>

definition selectionEffect :: "AppPage \<Rightarrow> AppPage" where
  "selectionEffect s =
     (if truthy (selectedConversationId s)
      then loadDocuments (the (selectedConversationId s))
             (loadMessages (the (selectedConversationId s)) s)
      else s)"

text \<open>
  After an update the component renders again and the effects whose dependencies differ from
  the previous render's run, in the order of their declaration. \<open>old\<close> is the state of the
  previous render.
\<close>

definition commitEffects :: "AppPage \<Rightarrow> AppPage \<Rightarrow> AppPage" where
  "commitEffects old s =
     (let s1 = (if backendReady s \<noteq> backendReady old then healthEffect s else s);
          s2 = (if isMobile s \<noteq> isMobile old then mobileEffect s1 else s1);
          s3 = (if user s \<noteq> user old \<or> backendReady s \<noteq> backendReady old
                then loadConversationsEffect s2 else s2);
          s4 = (if selectedConversationId s \<noteq> selectedConversationId old
                then selectionEffect s3 else s3)
      in s4)"

text \<open>The first render (\<open>m\<close>: the viewport is mobile, \<open>u\<close>: a user is signed in, \<open>t\<close>: the time).\<close>

definition initialPage :: "bool \<Rightarrow> bool \<Rightarrow> nat \<Rightarrow> AppPage" where
  "initialPage m u t =
     \<lparr>conversations = [], selectedConversationId = None, messages = [], documents = [],
      loading = True, sendingMessage = False, previewDoc = None, previewingDocId = None,
      isConversationsSidebarOpen = True, isDocumentsPanelOpen = True,
      backendReady = False, backendChecking = False, backendRetryCount = 0,
      backendLastError = None, isMountedRef = True, healthCheckInFlightRef = False,
      conversationCreationRef = None, hasLoadedConversationsRef = False,
      isMobile = m, user = u, clock = t, toasts = [], apiCalls = [], fetchCalls = [],
      healthInterval = False, healthTask = None, mockReplyTimers = [],
      creationPromises = []\<rparr>"

definition mount :: "bool \<Rightarrow> bool \<Rightarrow> nat \<Rightarrow> AppPage" where
  "mount m u t =
     selectionEffect (loadConversationsEffect (mobileEffect (healthEffect (initialPage m u t))))"

definition unmount :: "AppPage \<Rightarrow> AppPage" where
  "unmount s = s\<lparr>isMountedRef := False, healthInterval := False\<rparr>"

section \<open>Executions\<close>

text \<open>
  Everything that can happen to the mounted page: a user action, a timer, a change of what a
  hook reports, or the settling of a remote call. A settling event carries what the suspended
  handler holds in its closure.
\<close>

datatype event =
    Unmount
  | IntervalTick
  | CheckAgainNow
  | HealthProbeSettled fetch_outcome
  | IsMobileChanged bool
  | UserChanged bool
  | ConversationsLoaded "js_string option" bool "js_error + Conversation list"
  | MessagesLoaded js_string "js_error + Message list"
  | DocumentsLoaded js_string "js_error + Document list"
  | CreateConversation
  | CreateConversationSettled "Conversation list" bool "js_error + js_string"
  | SelectConversation js_string
  | DeleteConversation js_string
  | DeleteConversationSettled "js_string option" js_string "js_error + unit"
  | RenameConversation js_string js_string
  | RenameConversationSettled js_string js_string "js_error + unit"
  | CreationSettled nat "js_error + js_string"
  | SendMessage js_string
  | SendMessageEnsured js_string ensure_call
  | SendMessageSettled js_string "js_error + js_string \<times> js_string option"
  | MockReplyTimeout nat
  | UploadDocument
  | UploadDocumentEnsured File ensure_call
  | UploadDocumentSettled js_string File "js_error + js_string \<times> js_string"
  | DeleteDocument js_string
  | DeleteDocumentSettled js_string "js_error + unit"
  | ToggleDocumentInclude js_string bool
  | ToggleDocumentIncludeSettled js_string bool "js_error + unit"
  | PreviewDocument js_string
  | PreviewDocumentSettled "Document option" "js_error + js_string"
  | ClosePreview
  | ToggleConversationsSidebar
  | ToggleDocumentsPanel
  | CloseConversationsSidebar
  | CloseDocumentsPanel

primrec handle :: "event \<Rightarrow> AppPage \<Rightarrow> AppPage" where
  "handle Unmount s = unmount s"
| "handle IntervalTick s = intervalTick s"
| "handle CheckAgainNow s = runHealthCheck s"
| "handle (HealthProbeSettled outcome) s = healthProbeSettled outcome s"
| "handle (IsMobileChanged m) s = s\<lparr>isMobile := m\<rparr>"
| "handle (UserChanged u) s = s\<lparr>user := u\<rparr>"
| "handle (ConversationsLoaded selectedId spinner outcome) s =
     loadConversationsSettled selectedId spinner outcome s"
| "handle (MessagesLoaded cid outcome) s = loadMessagesSettled cid outcome s"
| "handle (DocumentsLoaded cid outcome) s = loadDocumentsSettled cid outcome s"
| "handle CreateConversation s = handleCreateConversation s"
| "handle (CreateConversationSettled cs m outcome) s =
     handleCreateConversationSettled cs m outcome s"
| "handle (SelectConversation cid) s = handleSelectConversation cid s"
| "handle (DeleteConversation cid) s = handleDeleteConversation cid s"
| "handle (DeleteConversationSettled selectedId cid outcome) s =
     snd (handleDeleteConversationSettled selectedId cid outcome s)"
| "handle (RenameConversation cid newTitle) s = handleRenameConversation cid newTitle s"
| "handle (RenameConversationSettled cid newTitle outcome) s =
     snd (handleRenameConversationSettled cid newTitle outcome s)"
| "handle (CreationSettled p outcome) s = creationSettled p outcome s"
| "handle (SendMessage content_in) s = snd (handleSendMessage content_in s)"
| "handle (SendMessageEnsured content_in c) s =
     (case awaitEnsure c s of
        None \<Rightarrow> s
      | Some (ensured, s1) \<Rightarrow> snd (handleSendMessageEnsured content_in ensured s1))"
| "handle (SendMessageSettled cid outcome) s = handleSendMessageSettled cid outcome s"
| "handle (MockReplyTimeout i) s = mockReplyTimeout i s"
| "handle UploadDocument s = snd (handleUploadDocument s)"
| "handle (UploadDocumentEnsured file c) s =
     (case awaitEnsure c s of
        None \<Rightarrow> s
      | Some (ensured, s1) \<Rightarrow> snd (handleUploadDocumentEnsured file ensured s1))"
| "handle (UploadDocumentSettled cid file outcome) s =
     handleUploadDocumentSettled cid file outcome s"
| "handle (DeleteDocument documentId) s = snd (handleDeleteDocument documentId s)"
| "handle (DeleteDocumentSettled documentId outcome) s =
     snd (handleDeleteDocumentSettled documentId outcome s)"
| "handle (ToggleDocumentInclude documentId isIncluded) s =
     snd (handleToggleDocumentInclude documentId isIncluded s)"
| "handle (ToggleDocumentIncludeSettled documentId isIncluded outcome) s =
     snd (handleToggleDocumentIncludeSettled documentId isIncluded outcome s)"
| "handle (PreviewDocument documentId) s = snd (handlePreviewDocument documentId s)"
| "handle (PreviewDocumentSettled documentMeta outcome) s =
     handlePreviewDocumentSettled documentMeta outcome s"
| "handle ClosePreview s = s\<lparr>previewDoc := None\<rparr>"
| "handle ToggleConversationsSidebar s = toggleConversationsSidebar s"
| "handle ToggleDocumentsPanel s = toggleDocumentsPanel s"
| "handle CloseConversationsSidebar s = s\<lparr>isConversationsSidebarOpen := False\<rparr>"
| "handle CloseDocumentsPanel s = s\<lparr>isDocumentsPanelOpen := False\<rparr>"

definition advance :: "nat \<Rightarrow> AppPage \<Rightarrow> AppPage" where
  "advance dt s = s\<lparr>clock := clock s + dt\<rparr>"

text \<open>
  One step: \<open>dt\<close> milliseconds pass, the event is handled, the page renders and its effects
  run. After \<open>Unmount\<close> no effect runs any more.
\<close>

definition step :: "nat \<times> event \<Rightarrow> AppPage \<Rightarrow> AppPage" where
  "step de s =
     (let s0 = advance (fst de) s; s1 = handle (snd de) s0
      in if isMountedRef s1 then commitEffects s0 s1 else s1)"

fun run :: "(nat \<times> event) list \<Rightarrow> AppPage \<Rightarrow> AppPage" where
  "run [] s = s"
| "run (de # des) s = run des (step de s)"

section \<open>Whole runs of the handlers that need an active conversation\<close>

text \<open>
  \<open>N\<close> calls of \<^verbatim>\<open>ensureActiveConversation\<close>, one after the other, each with its own seed;
  then the callers resuming, one after the other, from the promises they await.
\<close>

fun ensureAll :: "js_string option list \<Rightarrow> AppPage \<Rightarrow> ensure_call list \<times> AppPage" where
  "ensureAll [] s = ([], s)"
| "ensureAll (seed # seeds) s =
     (let (c, s1) = ensureActiveConversation seed s;
          (cs, s2) = ensureAll seeds s1
      in (c # cs, s2))"

fun resumeAll ::
  "ensure_call list \<Rightarrow> AppPage \<Rightarrow> ((js_error + EnsureConversationResult) list \<times> AppPage) option" where
  "resumeAll [] s = Some ([], s)"
| "resumeAll (c # cs) s =
     (case awaitEnsure c s of
        None \<Rightarrow> None
      | Some (r, s1) \<Rightarrow>
          (case resumeAll cs s1 of
             None \<Rightarrow> None
           | Some (rs, s2) \<Rightarrow> Some (r # rs, s2)))"

text \<open>
  A caller of \<^verbatim>\<open>ensureActiveConversation\<close> waits until the creation it awaits has settled (after
  \<open>dt\<close> milliseconds, with \<open>outcome\<close>) and resumes.
\<close>

definition awaitCreation ::
  "ensure_call \<Rightarrow> js_error + js_string \<Rightarrow> nat \<Rightarrow> AppPage
     \<Rightarrow> ((js_error + EnsureConversationResult) \<times> AppPage) option" where
  "awaitCreation c outcome dt s =
     (case c of
        Resolved r \<Rightarrow> Some (Inr r, s)
      | Awaits p \<Rightarrow> ensureResumed p (creationSettled p outcome (advance dt s)))"




record upload_env =
  uploadCreationOutcome :: "js_error + js_string"
  uploadCreationDelay :: nat
  uploadOutcome :: "js_error + js_string \<times> js_string"
  uploadDelay :: nat

definition uploadDocumentEnsure ::
  "upload_env \<Rightarrow> AppPage \<Rightarrow> ((js_error + EnsureConversationResult) \<times> AppPage) option" where
  "uploadDocumentEnsure env s =
     (case handleUploadDocument s of
        (c, s1) \<Rightarrow> awaitCreation c (uploadCreationOutcome env) (uploadCreationDelay env) s1)"

definition uploadDocumentRun :: "File \<Rightarrow> upload_env \<Rightarrow> AppPage \<Rightarrow> AppPage" where
  "uploadDocumentRun file env s =
     (case uploadDocumentEnsure env s of
        None \<Rightarrow> s
      | Some (ensured, s3) \<Rightarrow>
          (case handleUploadDocumentEnsured file ensured s3 of
             (None, s4) \<Rightarrow> s4
           | (Some cid, s4) \<Rightarrow>
               handleUploadDocumentSettled cid file (uploadOutcome env)
                 (advance (uploadDelay env) s4)))"

section \<open>The readiness monitor's part of the state\<close>

text \<open>
  What \<^verbatim>\<open>runHealthCheck\<close> and its effect read and write of the state that matters for the
  latch, and the state of a page whose latch has closed: ready, the polling interval
  cleared, no health check suspended.
\<close>

definition readiness ::
  "AppPage \<Rightarrow> bool \<times> bool \<times> bool \<times> bool \<times> health_task option \<times> js_string list" where
  "readiness s =
     (backendReady s, isMountedRef s, healthCheckInFlightRef s, healthInterval s,
      healthTask s, fetchCalls s)"


section \<open>Trimming and collapsing white space\<close>

lemma trimEnd_Nil [simp]: "trimEnd [] = []"
  by (simp add: trimEnd_def)

lemma trimEnd_Cons:
  "trimEnd (x # xs) = (if isWhiteSpace x \<and> (\<forall>y\<in>set xs. isWhiteSpace y) then [] else x # trimEnd xs)"
proof (cases "\<forall>y\<in>set xs. isWhiteSpace y")
  case True
  then have "dropWhile isWhiteSpace (rev xs @ [x]) = dropWhile isWhiteSpace [x]"
    by (intro dropWhile_append2) simp
  moreover from True have "dropWhile isWhiteSpace (rev xs) = []" by simp
  ultimately show ?thesis using True by (simp add: trimEnd_def)
next
  case False
  then obtain y where "y \<in> set (rev xs)" "\<not> isWhiteSpace y" by auto
  then have "dropWhile isWhiteSpace (rev xs @ [x]) = dropWhile isWhiteSpace (rev xs) @ [x]"
    by (rule dropWhile_append1)
  then show ?thesis using False by (simp add: trimEnd_def)
qed

lemma trimEnd_empty_iff: "trimEnd xs = [] \<longleftrightarrow> (\<forall>x\<in>set xs. isWhiteSpace x)"
  by (induction xs) (auto simp: trimEnd_Cons)

lemma trimEnd_all_ws: "\<forall>x\<in>set xs. isWhiteSpace x \<Longrightarrow> trimEnd xs = []"
  by (simp add: trimEnd_empty_iff)

lemma trimEnd_append_word:
  "\<exists>y\<in>set ys. \<not> isWhiteSpace y \<Longrightarrow> trimEnd (xs @ ys) = xs @ trimEnd ys"
  by (induction xs) (auto simp: trimEnd_Cons)

lemma trimEnd_append_ws:
  "\<forall>y\<in>set ys. isWhiteSpace y \<Longrightarrow> trimEnd (xs @ ys) = trimEnd xs"
  by (induction xs) (auto simp: trimEnd_Cons trimEnd_all_ws)

lemma trimEnd_word: "\<forall>x\<in>set w. \<not> isWhiteSpace x \<Longrightarrow> trimEnd w = w"
  by (induction w) (auto simp: trimEnd_Cons)

lemma dropWhile_trimEnd:
  "dropWhile isWhiteSpace (trimEnd ys) = trimEnd (dropWhile isWhiteSpace ys)"
  by (induction ys) (auto simp: trimEnd_Cons trimEnd_all_ws)

lemma all_dropWhile_iff: "(\<forall>x\<in>set (dropWhile P s). P x) \<longleftrightarrow> (\<forall>x\<in>set s. P x)"
  by (induction s) auto

lemma trim_empty_iff: "trim s = [] \<longleftrightarrow> (\<forall>x\<in>set s. isWhiteSpace x)"
  by (simp add: trim_def trimStart_def trimEnd_empty_iff all_dropWhile_iff)

lemma wordsOf_empty_iff: "wordsOf s = [] \<longleftrightarrow> (\<forall>x\<in>set s. isWhiteSpace x)"
  by (induction s rule: wordsOf.induct) auto

lemma replace_word_append:
  "\<forall>x\<in>set w. \<not> isWhiteSpace x \<Longrightarrow> replaceWhitespaceRuns (w @ ys) = w @ replaceWhitespaceRuns ys"
  by (induction w) auto

lemma replace_ws_head:
  "xs \<noteq> [] \<Longrightarrow> isWhiteSpace (hd xs) \<Longrightarrow>
   replaceWhitespaceRuns xs = 32 # replaceWhitespaceRuns (dropWhile isWhiteSpace xs)"
  by (cases xs) auto

lemma joinWords_Cons: "ws \<noteq> [] \<Longrightarrow> joinWords (w # ws) = w @ 32 # joinWords ws"
  by (cases ws) auto

lemma replace_trim_words: "replaceWhitespaceRuns (trim t) = joinWords (wordsOf t)"
proof (induction t rule: wordsOf.induct)
  case 1
  show ?case by (simp add: trim_def trimStart_def)
next
  case (2 c cs)
  show ?case
  proof (cases "isWhiteSpace c")
    case True
    then have "trim (c # cs) = trim cs" by (simp add: trim_def trimStart_def)
    with True 2 show ?thesis by simp
  next
    case False
    define w where "w = c # takeWhile (\<lambda>x. \<not> isWhiteSpace x) cs"
    define rest where "rest = dropWhile (\<lambda>x. \<not> isWhiteSpace x) cs"
    have t: "c # cs = w @ rest" by (simp add: w_def rest_def)
    have w: "\<forall>x\<in>set w. \<not> isWhiteSpace x"
      using False by (auto simp: w_def dest: set_takeWhileD)
    have IH: "replaceWhitespaceRuns (trim rest) = joinWords (wordsOf rest)"
      using 2(2) False by (simp add: rest_def)
    have words: "wordsOf (c # cs) = w # wordsOf rest"
      using False by (simp add: w_def rest_def)
    have trim_t: "trim (c # cs) = trimEnd (w @ rest)"
      using False by (simp add: trim_def trimStart_def t [symmetric])
    show ?thesis
    proof (cases "\<forall>x\<in>set rest. isWhiteSpace x")
      case True
      then have "trimEnd (w @ rest) = w" by (simp add: trimEnd_append_ws trimEnd_word w)
      moreover have "replaceWhitespaceRuns w = w"
        using replace_word_append [OF w, of "[]"] by simp
      moreover from True have "wordsOf rest = []" by (simp add: wordsOf_empty_iff)
      ultimately have "replaceWhitespaceRuns (trim (c # cs)) = w" "joinWords (wordsOf (c # cs)) = w"
        by (simp_all only: trim_t words joinWords.simps)
      then show ?thesis by (simp only:)
    next
      case nonws: False
      then have rest_ne: "rest \<noteq> []" by auto
      have hd_ws: "isWhiteSpace (hd rest)"
        using rest_ne hd_dropWhile [of "\<lambda>x. \<not> isWhiteSpace x" cs] by (simp add: rest_def)
      from nonws have e1: "trimEnd (w @ rest) = w @ trimEnd rest"
        by (intro trimEnd_append_word) auto
      have te_ne: "trimEnd rest \<noteq> []" using nonws by (simp add: trimEnd_empty_iff)
      have hd_te: "hd (trimEnd rest) = hd rest"
        using rest_ne te_ne by (cases rest) (auto simp: trimEnd_Cons split: if_splits)
      have "replaceWhitespaceRuns (trimEnd rest)
              = 32 # replaceWhitespaceRuns (dropWhile isWhiteSpace (trimEnd rest))"
        using te_ne hd_ws hd_te by (intro replace_ws_head) simp_all
      also have "dropWhile isWhiteSpace (trimEnd rest) = trim rest"
        by (simp add: dropWhile_trimEnd trim_def trimStart_def)
      finally have e2: "replaceWhitespaceRuns (trimEnd rest) = 32 # joinWords (wordsOf rest)"
        by (simp add: IH)
      have "wordsOf rest \<noteq> []" using nonws by (simp add: wordsOf_empty_iff)
      then have "joinWords (w # wordsOf rest) = w @ 32 # joinWords (wordsOf rest)"
        by (rule joinWords_Cons)
      moreover have "replaceWhitespaceRuns (trim (c # cs)) = w @ 32 # joinWords (wordsOf rest)"
        by (simp only: trim_t e1 replace_word_append [OF w] e2)
      ultimately show ?thesis by (simp only: words)
    qed
  qed
qed


lemma replace_empty_iff: "replaceWhitespaceRuns xs = [] \<longleftrightarrow> xs = []"
  by (cases xs) auto

lemma hd_replace: "xs \<noteq> [] \<Longrightarrow> \<not> isWhiteSpace (hd xs) \<Longrightarrow> hd (replaceWhitespaceRuns xs) = hd xs"
  by (cases xs) auto

lemma hd_dropWhile_ws: "dropWhile isWhiteSpace xs \<noteq> [] \<Longrightarrow> \<not> isWhiteSpace (hd (dropWhile isWhiteSpace xs))"
  by (rule hd_dropWhile)

lemma replace_no_adjacent:
  "successively (\<lambda>a b. \<not> (isWhiteSpace a \<and> isWhiteSpace b)) (replaceWhitespaceRuns xs)"
proof (induction xs rule: replaceWhitespaceRuns.induct)
  case 1
  show ?case by simp
next
  case (2 c cs)
  show ?case
  proof (cases "isWhiteSpace c")
    case True
    let ?d = "dropWhile isWhiteSpace cs"
    have "replaceWhitespaceRuns ?d = [] \<or> \<not> isWhiteSpace (hd (replaceWhitespaceRuns ?d))"
      using hd_dropWhile_ws [of cs] hd_replace [of ?d]
      by (cases "?d = []") (simp_all add: replace_empty_iff)
    with True 2(1) show ?thesis by (auto simp: successively_Cons)
  next
    case False
    with 2(2) show ?thesis by (auto simp: successively_Cons)
  qed
qed

lemma successively_nth:
  "successively P xs \<Longrightarrow> Suc i < length xs \<Longrightarrow> P (xs ! i) (xs ! Suc i)"
proof (induction xs arbitrary: i)
  case Nil
  then show ?case by simp
next
  case (Cons x xs)
  show ?case
  proof (cases i)
    case 0
    with Cons.prems show ?thesis by (cases xs) (auto simp: successively_Cons)
  next
    case (Suc j)
    with Cons show ?thesis by (auto simp: successively_Cons)
  qed
qed

lemma hd_trim: "trim t \<noteq> [] \<Longrightarrow> \<not> isWhiteSpace (hd (trim t))"
proof -
  have "trim t = dropWhile isWhiteSpace (trimEnd t)"
    by (simp add: trim_def trimStart_def dropWhile_trimEnd)
  then show "trim t \<noteq> [] \<Longrightarrow> \<not> isWhiteSpace (hd (trim t))"
    using hd_dropWhile_ws [of "trimEnd t"] by simp
qed

lemma trimEnd_snoc:
  "trimEnd (xs @ [c]) = (if isWhiteSpace c then trimEnd xs else xs @ [c])"
  by (simp add: trimEnd_def)

text \<open>Cutting a normalized string after \<open>k + 1\<close> characters and trimming the end.\<close>

lemma trimEnd_take_normalized:
  assumes k: "k < length (replaceWhitespaceRuns (trim t))"
  shows "trimEnd (take (Suc k) (replaceWhitespaceRuns (trim t)))
           = (if isWhiteSpace (replaceWhitespaceRuns (trim t) ! k)
              then take k (replaceWhitespaceRuns (trim t))
              else take (Suc k) (replaceWhitespaceRuns (trim t)))"
proof -
  define n where "n = replaceWhitespaceRuns (trim t)"
  have k': "k < length n" using k by (simp add: n_def)
  have adj: "successively (\<lambda>a b. \<not> (isWhiteSpace a \<and> isWhiteSpace b)) n"
    unfolding n_def by (rule replace_no_adjacent)
  have ne: "trim t \<noteq> []" using k by (auto simp: replace_empty_iff)
  have hd: "\<not> isWhiteSpace (n ! 0)"
    using hd_trim [OF ne] hd_replace [of "trim t"] ne k'
    by (simp add: n_def hd_conv_nth replace_empty_iff)
  have split: "take (Suc k) n = take k n @ [n ! k]"
    using k' by (rule take_Suc_conv_app_nth)
  show ?thesis
  proof (cases "isWhiteSpace (n ! k)")
    case False
    then show ?thesis unfolding n_def [symmetric] by (simp add: split trimEnd_snoc)
  next
    case True
    then obtain j where j: "k = Suc j" using hd by (cases k) auto
    then have "\<not> (isWhiteSpace (n ! j) \<and> isWhiteSpace (n ! Suc j))"
      using successively_nth [OF adj, of j] k' by simp
    with True j have nj: "\<not> isWhiteSpace (n ! j)" by simp
    have "take k n = take j n @ [n ! j]"
      using k' j take_Suc_conv_app_nth [of j n] by simp
    then have "trimEnd (take k n) = take k n" using nj by (simp add: trimEnd_snoc)
    with True show ?thesis unfolding n_def [symmetric] by (simp add: split trimEnd_snoc)
  qed
qed

lemma deriveConversationTitle_cases:
  "deriveConversationTitle seed n =
     (case seed of
        None \<Rightarrow> js ''New Conversation '' @ numberToString n
      | Some sd \<Rightarrow>
          if wordsOf sd = [] then js ''New Conversation '' @ numberToString n
          else if length (spec_normalized sd) \<le> 60 then spec_normalized sd
          else if isWhiteSpace (spec_normalized sd ! 56)
            then take 56 (spec_normalized sd) @ js ''...''
            else take 57 (spec_normalized sd) @ js ''...'')"
proof (cases seed)
  case None
  then show ?thesis by (simp add: deriveConversationTitle_def truthy_def)
next
  case (Some sd)
  have norm: "spec_normalized sd = replaceWhitespaceRuns (trim sd)"
    by (simp add: spec_normalized_def replace_trim_words)
  show ?thesis
  proof (cases "wordsOf sd = []")
    case True
    then have "trim sd = []" by (simp add: wordsOf_empty_iff trim_empty_iff)
    with True Some show ?thesis by (simp add: deriveConversationTitle_def truthy_def)
  next
    case False
    then have ne: "trim sd \<noteq> []" by (simp add: wordsOf_empty_iff trim_empty_iff)
    show ?thesis
    proof (cases "length (replaceWhitespaceRuns (trim sd)) \<le> 60")
      case True
      with False ne Some show ?thesis
        by (simp add: deriveConversationTitle_def truthy_def norm MAX_AUTO_TITLE_LENGTH_def)
    next
      case long: False
      then have "56 < length (replaceWhitespaceRuns (trim sd))" by simp
      from trimEnd_take_normalized [OF this]
      have "trimEnd (take 57 (replaceWhitespaceRuns (trim sd)))
              = (if isWhiteSpace (replaceWhitespaceRuns (trim sd) ! 56)
                 then take 56 (replaceWhitespaceRuns (trim sd))
                 else take 57 (replaceWhitespaceRuns (trim sd)))"
        by simp
      with long False ne Some show ?thesis
        by (simp add: deriveConversationTitle_def truthy_def norm MAX_AUTO_TITLE_LENGTH_def)
    qed
  qed
qed

lemma trim_word: "\<forall>x\<in>set w. \<not> isWhiteSpace x \<Longrightarrow> trim w = w"
  by (cases w) (simp_all add: trim_def trimStart_def trimEnd_word)

lemma replace_word: "\<forall>x\<in>set w. \<not> isWhiteSpace x \<Longrightarrow> replaceWhitespaceRuns w = w"
  using replace_word_append [of w "[]"] by simp

lemma wordsOf_word_ws:
  assumes "w \<noteq> []" "\<forall>x\<in>set w. \<not> isWhiteSpace x" "isWhiteSpace c"
  shows "wordsOf (w @ c # rest) = w # wordsOf rest"
proof -
  obtain a w' where w: "w = a # w'" using assms(1) by (cases w) auto
  have "takeWhile (\<lambda>x. \<not> isWhiteSpace x) (w' @ c # rest) = w'"
    using assms(2,3) by (simp add: w takeWhile_append2)
  moreover have "dropWhile (\<lambda>x. \<not> isWhiteSpace x) (w' @ c # rest) = c # rest"
    using assms(2,3) by (simp add: w dropWhile_append2)
  ultimately show ?thesis using assms(2,3) by (simp add: w)
qed

lemma wordsOf_word:
  assumes "w \<noteq> []" "\<forall>x\<in>set w. \<not> isWhiteSpace x"
  shows "wordsOf w = [w]"
proof -
  obtain a w' where w: "w = a # w'" using assms(1) by (cases w) auto
  have h: "takeWhile (\<lambda>x. \<not> isWhiteSpace x) w' = w'" "dropWhile (\<lambda>x. \<not> isWhiteSpace x) w' = []"
    using assms(2) by (simp_all add: w)
  show ?thesis using assms(2) by (simp add: w h)
qed

lemma long_seed_normalized:
  "spec_normalized (replicate 56 97 @ 32 # replicate 10 98) = replicate 56 97 @ 32 # replicate 10 98"
proof -
  have ws: "isWhiteSpace 32" "\<not> isWhiteSpace 97" "\<not> isWhiteSpace 98"
    by (simp_all add: isWhiteSpace_def)
  have "wordsOf (replicate 56 97 @ 32 # replicate 10 98) = replicate 56 97 # wordsOf (replicate 10 98)"
    using ws by (intro wordsOf_word_ws) simp_all
  also have "wordsOf (replicate 10 98) = [replicate 10 98]"
    using ws by (intro wordsOf_word) simp_all
  finally show ?thesis by (simp add: spec_normalized_def)
qed


lemma title_hello_world:
  "deriveConversationTitle (Some (js ''  hello   world  '')) n = js ''hello world''"
  by (simp add: deriveConversationTitle_def js_def trim_def trimEnd_def trimStart_def
      isWhiteSpace_def truthy_def MAX_AUTO_TITLE_LENGTH_def)

lemma title_80_a:
  "deriveConversationTitle (Some (replicate 80 97)) n = replicate 57 97 @ js ''...''"
proof -
  have a: "\<not> isWhiteSpace 97" by (simp add: isWhiteSpace_def)
  then have w: "\<forall>x\<in>set (replicate k 97). \<not> isWhiteSpace x" for k by simp
  show ?thesis
    by (simp add: deriveConversationTitle_def truthy_def MAX_AUTO_TITLE_LENGTH_def
        trim_word [OF w] replace_word [OF w] trimEnd_word [OF w])
qed

section \<open>Title derivation\<close>

text \<open>
  Claim C4, as stated, says that a normalized seed of more than 60 characters is cut to its
  first 57 characters, with the ellipsis appended. The code trims the end of the cut before
  it appends the ellipsis: for the seed of 56 times \<open>a\<close>, one space and 10 times \<open>b\<close> the
  57th character is the space, and the title is 56 times \<open>a\<close> followed by the three dots, 59
  characters and not 60.
\<close>

theorem deriveConversationTitle_counterexample:
  "60 < length (spec_normalized (replicate 56 97 @ 32 # replicate 10 98))
   \<and> deriveConversationTitle (Some (replicate 56 97 @ 32 # replicate 10 98)) 1
       = replicate 56 97 @ js ''...''
   \<and> deriveConversationTitle (Some (replicate 56 97 @ 32 # replicate 10 98)) 1
       \<noteq> take 57 (spec_normalized (replicate 56 97 @ 32 # replicate 10 98)) @ js ''...''"
proof -
  have ws: "isWhiteSpace 32" by (simp add: isWhiteSpace_def)
  have w: "wordsOf (replicate 56 97 @ 32 # replicate 10 98) \<noteq> []"
    by (simp add: wordsOf_empty_iff isWhiteSpace_def)
  have t: "deriveConversationTitle (Some (replicate 56 97 @ 32 # replicate 10 98)) 1
             = replicate 56 97 @ js ''...''"
    using w ws by (simp add: deriveConversationTitle_cases long_seed_normalized nth_append)
  have "length (deriveConversationTitle (Some (replicate 56 97 @ 32 # replicate 10 98)) 1)
          \<noteq> length (take 57 (spec_normalized (replicate 56 97 @ 32 # replicate 10 98)) @ js ''...'')"
    unfolding t long_seed_normalized by (simp add: js_def)
  then have "deriveConversationTitle (Some (replicate 56 97 @ 32 # replicate 10 98)) 1
       \<noteq> take 57 (spec_normalized (replicate 56 97 @ 32 # replicate 10 98)) @ js ''...''"
    by metis
  with t show ?thesis by (simp add: long_seed_normalized)
qed

text \<open>
  Claim C4, amended. The title derived from a seed is the seed's words joined by single
  spaces (the seed trimmed, its runs of white space collapsed) when that has at most 60
  characters; when it has more, its first 57 characters, or its first 56 when the 57th is a
  space, followed by three dots; and \<open>New Conversation n\<close> when the seed is undefined, empty
  or all white space. \<^verbatim>\<open>ensureActiveConversation\<close> passes one more than the number of
  conversations as \<open>n\<close>. The seed \<open>"  hello   world  "\<close> gives \<open>"hello world"\<close>, 80 times \<open>a\<close>
  gives 57 times \<open>a\<close> and three dots (60 characters), and no seed with 2 conversations gives
  \<open>"New Conversation 3"\<close>.
\<close>

theorem deriveConversationTitle_amended:
  "deriveConversationTitle seed n =
     (case seed of
        None \<Rightarrow> js ''New Conversation '' @ numberToString n
      | Some sd \<Rightarrow>
          if wordsOf sd = [] then js ''New Conversation '' @ numberToString n
          else if length (spec_normalized sd) \<le> 60 then spec_normalized sd
          else if isWhiteSpace (spec_normalized sd ! 56)
            then take 56 (spec_normalized sd) @ js ''...''
            else take 57 (spec_normalized sd) @ js ''...'')
   \<and> apiCalls (startCreation seed s)
       = apiCalls s @ [ConversationsCreate
                         (deriveConversationTitle seed (length (conversations s) + 1))]
   \<and> deriveConversationTitle (Some (js ''  hello   world  '')) n = js ''hello world''
   \<and> deriveConversationTitle (Some (replicate 80 97)) n = replicate 57 97 @ js ''...''
   \<and> length (deriveConversationTitle (Some (replicate 80 97)) n) = 60
   \<and> deriveConversationTitle None (2 + 1) = js ''New Conversation 3''
   \<and> deriveConversationTitle (Some []) (2 + 1) = js ''New Conversation 3''"
proof -
  have "apiCalls (startCreation seed s)
     = apiCalls s @ [ConversationsCreate
                       (deriveConversationTitle seed (length (conversations s) + 1))]"
    by (simp add: startCreation_def callApi_def Let_def)
  moreover have "length (deriveConversationTitle (Some (replicate 80 97)) n) = 60"
    by (simp add: title_80_a js_def)
  moreover have "deriveConversationTitle None (2 + 1) = js ''New Conversation 3''"
    by (simp add: deriveConversationTitle_def js_def truthy_def numberToString.simps)
  moreover have "deriveConversationTitle (Some []) (2 + 1) = js ''New Conversation 3''"
    by (simp add: deriveConversationTitle_def js_def truthy_def numberToString.simps
        trim_def trimStart_def)
  ultimately show ?thesis
    using deriveConversationTitle_cases [of seed n] title_hello_world [of n] title_80_a [of n]
    by (simp only: simp_thms)
qed

theorem deriveConversationTitle_amended_witness:
  "wordsOf (replicate 60 97 @ 32 # replicate 10 98) \<noteq> []
   \<and> \<not> length (spec_normalized (replicate 60 97 @ 32 # replicate 10 98)) \<le> 60
   \<and> \<not> isWhiteSpace (spec_normalized (replicate 60 97 @ 32 # replicate 10 98) ! 56)
   \<and> deriveConversationTitle (Some (replicate 60 97 @ 32 # replicate 10 98)) 1
       = replicate 57 97 @ js ''...''"
proof -
  have ws: "isWhiteSpace 32" "\<not> isWhiteSpace 97" "\<not> isWhiteSpace 98"
    by (simp_all add: isWhiteSpace_def)
  have "wordsOf (replicate 60 97 @ 32 # replicate 10 98)
          = replicate 60 97 # wordsOf (replicate 10 98)"
    using ws by (intro wordsOf_word_ws) simp_all
  also have "wordsOf (replicate 10 98) = [replicate 10 98]"
    using ws by (intro wordsOf_word) simp_all
  finally have w: "wordsOf (replicate 60 97 @ 32 # replicate 10 98)
                     = [replicate 60 97, replicate 10 98]" .
  then have n: "spec_normalized (replicate 60 97 @ 32 # replicate 10 98)
                  = replicate 60 97 @ 32 # replicate 10 98"
    by (simp add: spec_normalized_def)
  show ?thesis
    using deriveConversationTitle_amended [of "Some (replicate 60 97 @ 32 # replicate 10 98)" 1] ws
    by (simp add: n w nth_append)
qed

section \<open>Deleting a conversation\<close>

lemma find_filter: "find P xs = (case filter P xs of [] \<Rightarrow> None | x # _ \<Rightarrow> Some x)"
  by (induction xs) auto

text \<open>
  Claim C6. The call of \<^verbatim>\<open>handleDeleteConversation\<close> only issues the remote delete. When the
  delete succeeds and the conversation was the selected one (the closure's
  \<^verbatim>\<open>selectedConversationId\<close> is its id), the conversation is removed from the store, the
  selection becomes the first remaining conversation in list order or null, and messages,
  documents and both preview states are cleared. When another conversation was selected, or
  none, the conversation is removed and selection, messages, documents and preview are not
  touched. When the delete fails, the state is left as it is but for the error notification,
  and the error is not thrown on.
\<close>

theorem handleDeleteConversation_cascade:
  "handleDeleteConversation cid s = s\<lparr>apiCalls := apiCalls s @ [ConversationsDelete cid]\<rparr>
   \<and> (case handleDeleteConversationSettled (Some cid) cid (Inr ()) s of
        (r, s') \<Rightarrow>
          conversations s' = filter (\<lambda>c. conversation_id c \<noteq> cid) (conversations s)
          \<and> selectedConversationId s'
              = map_option conversation_id
                  (find (\<lambda>c. conversation_id c \<noteq> cid) (conversations s))
          \<and> messages s' = [] \<and> documents s' = []
          \<and> previewDoc s' = None \<and> previewingDocId s' = None)
   \<and> (selectedId \<noteq> Some cid \<longrightarrow>
        (case handleDeleteConversationSettled selectedId cid (Inr ()) s of
           (r, s') \<Rightarrow>
             conversations s' = filter (\<lambda>c. conversation_id c \<noteq> cid) (conversations s)
             \<and> selectedConversationId s' = selectedConversationId s
             \<and> messages s' = messages s \<and> documents s' = documents s
             \<and> previewDoc s' = previewDoc s \<and> previewingDocId s' = previewingDocId s))
   \<and> handleDeleteConversationSettled selectedId cid (Inl e) s
       = (Inr (), s\<lparr>toasts := toasts s @ [errorToast ''Failed to delete conversation'']\<rparr>)"
  by (simp add: handleDeleteConversation_def handleDeleteConversationSettled_def notify_def
      callApi_def Let_def find_filter split: list.splits)

theorem handleDeleteConversation_cascade_witness:
  "Some (js ''b'') \<noteq> Some (js ''a'')
   \<and> selectedConversationId
        (snd (handleDeleteConversationSettled (Some (js ''b'')) (js ''a'') (Inr ())
           ((initialPage False True 0)
              \<lparr>conversations :=
                 [\<lparr>conversation_id = js ''a'', title = js ''A'',
                   created_at = ISOString 0, updated_at = ISOString 0\<rparr>,
                  \<lparr>conversation_id = js ''b'', title = js ''B'',
                   created_at = ISOString 0, updated_at = ISOString 0\<rparr>],
               selectedConversationId := Some (js ''b'')\<rparr>)))
       = Some (js ''b'')
   \<and> map conversation_id (conversations
        (snd (handleDeleteConversationSettled (Some (js ''b'')) (js ''a'') (Inr ())
           ((initialPage False True 0)
              \<lparr>conversations :=
                 [\<lparr>conversation_id = js ''a'', title = js ''A'',
                   created_at = ISOString 0, updated_at = ISOString 0\<rparr>,
                  \<lparr>conversation_id = js ''b'', title = js ''B'',
                   created_at = ISOString 0, updated_at = ISOString 0\<rparr>],
               selectedConversationId := Some (js ''b'')\<rparr>))))
       = [js ''b'']"
  using handleDeleteConversation_cascade
    [of "js ''a''"
        "(initialPage False True 0)
              \<lparr>conversations :=
                 [\<lparr>conversation_id = js ''a'', title = js ''A'',
                   created_at = ISOString 0, updated_at = ISOString 0\<rparr>,
                  \<lparr>conversation_id = js ''b'', title = js ''B'',
                   created_at = ISOString 0, updated_at = ISOString 0\<rparr>],
               selectedConversationId := Some (js ''b'')\<rparr>"
        "Some (js ''b'')"]
  by (simp add: js_def initialPage_def split_beta)

section \<open>Toggling a document\<close>

text \<open>
  Claim C8. When the remote toggle succeeds, the document list keeps its length and order,
  every document whose id is not \<open>X\<close> is unchanged, every document with id \<open>X\<close> changes in its
  inclusion flag only, and nothing else in the state changes. When it fails, the state is
  left as it is but for one error notification. The call itself changes no document: it
  issues the remote call, or returns at once when no conversation is selected.
\<close>

theorem handleToggleDocumentInclude_frame:
  "(case handleToggleDocumentIncludeSettled X v (Inr ()) s of
      (r, s') \<Rightarrow>
        r = Inr ()
        \<and> length (documents s') = length (documents s)
        \<and> (\<forall>i<length (documents s).
              documents s' ! i =
                (if document_id (documents s ! i) = X
                 then (documents s ! i)\<lparr>is_included := v\<rparr> else documents s ! i))
        \<and> s' = s\<lparr>documents := documents s'\<rparr>)
   \<and> handleToggleDocumentIncludeSettled X v (Inl e) s
       = (Inr (), s\<lparr>toasts := toasts s @ [errorToast ''Failed to update document'']\<rparr>)
   \<and> (case handleToggleDocumentInclude X v s of
        (called, s') \<Rightarrow>
          s' = (if called
                then s\<lparr>apiCalls := apiCalls s
                       @ [DocumentsToggleInclude (the (selectedConversationId s)) X v]\<rparr>
                else s)
          \<and> called = truthy (selectedConversationId s))"
  by (simp add: handleToggleDocumentIncludeSettled_def handleToggleDocumentInclude_def
      notify_def callApi_def)

theorem handleToggleDocumentInclude_frame_witness:
  "(1::nat) < length
       [\<lparr>document_id = js ''x'', doc_conversation_id = js ''c'', filename = js ''x.pdf'',
         file_size = None, upload_date = ISOString 0, is_included = True,
         storage_path = None\<rparr>,
        \<lparr>document_id = js ''y'', doc_conversation_id = js ''c'', filename = js ''y.pdf'',
         file_size = None, upload_date = ISOString 0, is_included = True,
         storage_path = None\<rparr>]
   \<and> documents
        (snd (handleToggleDocumentIncludeSettled (js ''x'') False (Inr ())
           ((initialPage False True 0)
              \<lparr>documents :=
                 [\<lparr>document_id = js ''x'', doc_conversation_id = js ''c'',
                   filename = js ''x.pdf'', file_size = None, upload_date = ISOString 0,
                   is_included = True, storage_path = None\<rparr>,
                  \<lparr>document_id = js ''y'', doc_conversation_id = js ''c'',
                   filename = js ''y.pdf'', file_size = None, upload_date = ISOString 0,
                   is_included = True, storage_path = None\<rparr>]\<rparr>))) ! 1
       = \<lparr>document_id = js ''y'', doc_conversation_id = js ''c'', filename = js ''y.pdf'',
          file_size = None, upload_date = ISOString 0, is_included = True,
          storage_path = None\<rparr>"
  using handleToggleDocumentInclude_frame
    [where X = "js ''x''" and v = False and s =
        "(initialPage False True 0)
              \<lparr>documents :=
                 [\<lparr>document_id = js ''x'', doc_conversation_id = js ''c'',
                   filename = js ''x.pdf'', file_size = None, upload_date = ISOString 0,
                   is_included = True, storage_path = None\<rparr>,
                  \<lparr>document_id = js ''y'', doc_conversation_id = js ''c'',
                   filename = js ''y.pdf'', file_size = None, upload_date = ISOString 0,
                   is_included = True, storage_path = None\<rparr>]\<rparr>"]
  by (simp add: js_def initialPage_def split_beta)

section \<open>Renaming a conversation\<close>

text \<open>
  Claim C9. When the remote rename succeeds, the conversations with the given id get the new
  title and the current time as \<open>updated_at\<close>, every other conversation is unchanged, and
  nothing else changes but for the notification. When it fails, the state is left as it is
  but for the error notification and the error is thrown on to the caller, whose dialog then
  only resets \<open>renaming\<close> and stays open; the toggle and the two delete handlers return
  normally after a failure. A rename whose title is empty or all white space returns at the
  dialog's guard, with no remote call and no change; otherwise the dialog calls the page with
  the trimmed title.
\<close>

theorem handleRenameConversation_fail_closed:
  "(case handleRenameConversationSettled cid newTitle (Inr ()) s of
      (r, s') \<Rightarrow>
        r = Inr ()
        \<and> length (conversations s') = length (conversations s)
        \<and> (\<forall>i<length (conversations s).
              conversations s' ! i =
                (if conversation_id (conversations s ! i) = cid
                 then (conversations s ! i)\<lparr>title := newTitle, updated_at := now s\<rparr>
                 else conversations s ! i))
        \<and> s' = s\<lparr>conversations := conversations s',
                   toasts := toasts s @ [Toast (js ''Conversation renamed'')
                                           (js ''Title updated successfully'') False]\<rparr>)
   \<and> handleRenameConversationSettled cid newTitle (Inl e) s
       = (Inl e, s\<lparr>toasts := toasts s @ [errorToast ''Failed to rename conversation'']\<rparr>)
   \<and> handleConfirmRenameSettled (Inl e) sb = sb\<lparr>renaming := False\<rparr>
   \<and> fst (handleToggleDocumentIncludeSettled documentId isIncluded (Inl e) s) = Inr ()
   \<and> fst (handleDeleteDocumentSettled documentId (Inl e) s) = Inr ()
   \<and> fst (handleDeleteConversationSettled selectedId cid (Inl e) s) = Inr ()
   \<and> ((\<forall>c\<in>set (renameValue sb). isWhiteSpace c) \<longrightarrow>
        handleConfirmRename sb s = (None, sb, s))
   \<and> (truthy (conversationToRename sb) \<and> \<not> (\<forall>c\<in>set (renameValue sb). isWhiteSpace c) \<longrightarrow>
        handleConfirmRename sb s
          = (Some (the (conversationToRename sb), trim (renameValue sb)),
             sb\<lparr>renaming := True\<rparr>,
             s\<lparr>apiCalls := apiCalls s
                  @ [ConversationsRename (the (conversationToRename sb))
                       (trim (renameValue sb))]\<rparr>))"
  by (simp add: handleRenameConversationSettled_def handleConfirmRenameSettled_def
      handleToggleDocumentIncludeSettled_def handleDeleteDocumentSettled_def
      handleDeleteConversationSettled_def handleConfirmRename_def handleRenameConversation_def
      notify_def callApi_def Let_def trim_empty_iff)

theorem handleRenameConversation_fail_closed_witness:
  "list_all isWhiteSpace (js ''   '')
   \<and> handleConfirmRename
        \<lparr>deleteDialogOpen = False, conversationToDelete = None, renameDialogOpen = True,
         conversationToRename = Some (js ''a''), renameValue = js ''   '', renaming = False\<rparr>
        (initialPage False True 0)
       = (None,
          \<lparr>deleteDialogOpen = False, conversationToDelete = None, renameDialogOpen = True,
           conversationToRename = Some (js ''a''), renameValue = js ''   '', renaming = False\<rparr>,
          initialPage False True 0)
   \<and> truthy (Some (js ''a''))
   \<and> \<not> list_all isWhiteSpace (js '' New '')
   \<and> apiCalls (snd (snd (handleConfirmRename
        \<lparr>deleteDialogOpen = False, conversationToDelete = None, renameDialogOpen = True,
         conversationToRename = Some (js ''a''), renameValue = js '' New '', renaming = False\<rparr>
        (initialPage False True 0))))
       = [ConversationsRename (js ''a'') (js ''New'')]"
proof -
  have ws: "\<forall>c\<in>set (js ''   ''). isWhiteSpace c"
    by (simp add: js_def isWhiteSpace_def)
  have nws: "\<not> (\<forall>c\<in>set (js '' New ''). isWhiteSpace c)"
    by (simp add: js_def isWhiteSpace_def)
  have t: "trim (js '' New '') = js ''New''"
    by (simp add: js_def trim_def trimStart_def trimEnd_def isWhiteSpace_def)
  have tr: "truthy (Some (js ''a''))" by (simp add: truthy_def js_def)
  note th = handleRenameConversation_fail_closed
  from th [where sb = "\<lparr>deleteDialogOpen = False, conversationToDelete = None,
         renameDialogOpen = True, conversationToRename = Some (js ''a''),
         renameValue = js ''   '', renaming = False\<rparr>" and s = "initialPage False True 0"]
       th [where sb = "\<lparr>deleteDialogOpen = False, conversationToDelete = None,
         renameDialogOpen = True, conversationToRename = Some (js ''a''),
         renameValue = js '' New '', renaming = False\<rparr>" and s = "initialPage False True 0"]
       ws nws tr
  show ?thesis by (simp add: t initialPage_def list_all_iff)
qed

section \<open>Failed list loads\<close>

text \<open>
  Claim C10. A failed load of the conversation list installs exactly the mock conversation
  (id \<open>1\<close>, title \<open>Getting Started\<close>) and selects it when the closure's selection is null or
  empty; a failed load of the messages installs exactly the assistant's mock greeting, a list
  with no user message; a failed load of the documents empties the document list. Each
  shows its notification.
\<close>

theorem load_failure_fallbacks:
  "conversations (loadConversationsSettled selectedId spinner (Inl e) s) = [mockConversation s]
   \<and> conversation_id (mockConversation s) = js ''1''
   \<and> title (mockConversation s) = js ''Getting Started''
   \<and> selectedConversationId (loadConversationsSettled selectedId spinner (Inl e) s)
       = (if truthy selectedId then selectedConversationId s else Some (js ''1''))
   \<and> messages (loadMessagesSettled cid (Inl e) s) = [mockMessage cid s]
   \<and> role (mockMessage cid s) = Assistant
   \<and> msg_conversation_id (mockMessage cid s) = cid
   \<and> filter (\<lambda>m. role m = User) (messages (loadMessagesSettled cid (Inl e) s)) = []
   \<and> documents (loadDocumentsSettled cid (Inl e) s) = []
   \<and> toasts (loadConversationsSettled selectedId spinner (Inl e) s)
       = toasts s @ [errorToast ''Failed to load conversations. Using offline mode.'']
   \<and> toasts (loadMessagesSettled cid (Inl e) s)
       = toasts s @ [errorToast ''Failed to load messages. Using offline mode.'']
   \<and> toasts (loadDocumentsSettled cid (Inl e) s)
       = toasts s @ [errorToast ''Failed to load documents. Using offline mode.'']"
  by (simp add: loadConversationsSettled_def loadMessagesSettled_def loadDocumentsSettled_def
      mockConversation_def mockMessage_def notify_def Let_def)

section \<open>Awaiting the active conversation\<close>

lemma creationSettled_frame:
  "clock (creationSettled p outcome s) = clock s"
  "apiCalls (creationSettled p outcome s) = apiCalls s"
  "toasts (creationSettled p outcome s) = toasts s"
  "mockReplyTimers (creationSettled p outcome s) = mockReplyTimers s"
  "sendingMessage (creationSettled p outcome s) = sendingMessage s"
  "conversationCreationRef (creationSettled p outcome s) = conversationCreationRef s"
  "length (creationPromises (creationSettled p outcome s)) = length (creationPromises s)"
  by (simp_all add: creationSettled_def Let_def split: sum.splits)

lemma creationSettled_rejected_keeps:
  "p < length (creationPromises s) \<Longrightarrow>
   cp_state (creationPromises (creationSettled p outcome s) ! p) = Rejected e \<Longrightarrow>
   messages (creationSettled p outcome s) = messages s
   \<and> documents (creationSettled p outcome s) = documents s"
  by (auto simp: creationSettled_def Let_def split: sum.splits if_splits)

lemma ensureResumed_frame:
  "ensureResumed p s = Some (res, s') \<Longrightarrow>
   messages s' = messages s \<and> documents s' = documents s \<and> clock s' = clock s
   \<and> apiCalls s' = apiCalls s \<and> toasts s' = toasts s
   \<and> mockReplyTimers s' = mockReplyTimers s \<and> sendingMessage s' = sendingMessage s"
  by (auto simp: ensureResumed_def Let_def split: if_splits promise_state.splits)

lemma ensureResumed_rejected:
  "ensureResumed p s = Some (Inl e, s') \<Longrightarrow>
   p < length (creationPromises s) \<and> cp_state (creationPromises s ! p) = Rejected e"
  by (auto simp: ensureResumed_def Let_def split: if_splits promise_state.splits)

lemma ensureActiveConversation_frame:
  "ensureActiveConversation seed s = (c, s1) \<Longrightarrow>
   messages s1 = messages s \<and> documents s1 = documents s \<and> clock s1 = clock s
   \<and> toasts s1 = toasts s \<and> mockReplyTimers s1 = mockReplyTimers s
   \<and> sendingMessage s1 = sendingMessage s"
  by (auto simp: ensureActiveConversation_def startCreation_def callApi_def Let_def
      split: if_splits option.splits)

lemma awaitCreation_rejected_keeps:
  assumes "awaitCreation c outcome dt s = Some (Inl e, s')"
  shows "messages s' = messages s \<and> documents s' = documents s
         \<and> mockReplyTimers s' = mockReplyTimers s \<and> toasts s' = toasts s
         \<and> sendingMessage s' = sendingMessage s"
proof (cases c)
  case (Resolved r)
  with assms show ?thesis by (simp add: awaitCreation_def)
next
  case (Awaits p)
  with assms have r: "ensureResumed p (creationSettled p outcome (advance dt s)) = Some (Inl e, s')"
    by (simp add: awaitCreation_def)
  from ensureResumed_rejected [OF r] creationSettled_rejected_keeps [of p "advance dt s" outcome e]
  have "messages (creationSettled p outcome (advance dt s)) = messages s
        \<and> documents (creationSettled p outcome (advance dt s)) = documents s"
    by (simp add: creationSettled_frame advance_def)
  with ensureResumed_frame [OF r] show ?thesis
    by (simp add: creationSettled_frame advance_def)
qed


section \<open>Uploading a document\<close>

text \<open>
  Claim C7, as stated, promises the local document whenever
  \<^verbatim>\<open>ensureActiveConversation\<close> succeeded and the upload failed. The \<^verbatim>\<open>catch\<close> appends it under
  \<^verbatim>\<open>if (ensuredConversationId)\<close>, which is false for the empty string too: when nothing is
  selected and the backend answers the creation with an empty conversation id, the ensure
  step succeeds (\<open>created = true\<close>), the upload fails, and no document is appended.
\<close>

theorem handleUploadDocument_counterexample:
  "map_option fst
     (uploadDocumentEnsure
        \<lparr>uploadCreationOutcome = Inr [], uploadCreationDelay = 5,
         uploadOutcome = Inl NonError, uploadDelay = 7\<rparr>
        (initialPage False True 0))
     = Some (Inr \<lparr>conversationId = [], created = True\<rparr>)
   \<and> documents
       (uploadDocumentRun \<lparr>name = js ''a.pdf'', size_f = 10\<rparr>
          \<lparr>uploadCreationOutcome = Inr [], uploadCreationDelay = 5,
           uploadOutcome = Inl NonError, uploadDelay = 7\<rparr>
          (initialPage False True 0))
     = []"
  by (simp add: uploadDocumentRun_def uploadDocumentEnsure_def handleUploadDocument_def
      ensureActiveConversation_def startCreation_def awaitCreation_def creationSettled_def
      ensureResumed_def handleUploadDocumentEnsured_def handleUploadDocumentSettled_def
      initialPage_def truthy_def callApi_def notify_def advance_def now_def Let_def)


text \<open>
  Claim C7, amended. When \<^verbatim>\<open>ensureActiveConversation\<close> succeeded with a non-empty
  conversation id and the remote upload fails, the document list is the list at that point
  with exactly one document appended: its id is the clock reading rendered as a string, its
  filename the file's name, its size the file's size in bytes, and it is included. When
  \<^verbatim>\<open>ensureActiveConversation\<close> itself fails, the document list is the one before the call and
  only the error is notified. (A caller that never resumes changes nothing.)
\<close>

theorem handleUploadDocument_local_fallback:
  "(uploadDocumentEnsure env s = Some (Inr r, s3) \<and> uploadOutcome env = Inl e
      \<and> conversationId r \<noteq> [] \<longrightarrow>
      documents (uploadDocumentRun file env s)
        = documents s3
          @ [\<lparr>document_id = numberToString (clock s3 + uploadDelay env),
              doc_conversation_id = conversationId r, filename = name file,
              file_size = Some (size_f file),
              upload_date = ISOString (clock s3 + uploadDelay env),
              is_included = True, storage_path = None\<rparr>])
   \<and> (uploadDocumentEnsure env s = Some (Inl e', s3) \<longrightarrow>
      documents (uploadDocumentRun file env s) = documents s
      \<and> toasts (uploadDocumentRun file env s)
          = toasts s @ [errorToast ''Failed to upload document. Using offline mode.''])
   \<and> (uploadDocumentEnsure env s = None \<longrightarrow> uploadDocumentRun file env s = s)"
proof -
  have A: "documents (uploadDocumentRun file env s)
        = documents s3
          @ [\<lparr>document_id = numberToString (clock s3 + uploadDelay env),
              doc_conversation_id = conversationId r, filename = name file,
              file_size = Some (size_f file),
              upload_date = ISOString (clock s3 + uploadDelay env),
              is_included = True, storage_path = None\<rparr>]"
    if "uploadDocumentEnsure env s = Some (Inr r, s3) \<and> uploadOutcome env = Inl e
      \<and> conversationId r \<noteq> []"
    using that
    by (simp add: uploadDocumentRun_def handleUploadDocumentEnsured_def
        handleUploadDocumentSettled_def localDocument_def notify_def callApi_def advance_def
        now_def truthy_def Let_def)
  have B: "documents (uploadDocumentRun file env s) = documents s
      \<and> toasts (uploadDocumentRun file env s)
          = toasts s @ [errorToast ''Failed to upload document. Using offline mode.'']"
    if a: "uploadDocumentEnsure env s = Some (Inl e', s3)"
  proof -
    obtain c s1 where c: "handleUploadDocument s = (c, s1)" by (cases "handleUploadDocument s")
    with a have aw: "awaitCreation c (uploadCreationOutcome env) (uploadCreationDelay env) s1
                       = Some (Inl e', s3)"
      by (simp add: uploadDocumentEnsure_def)
    from c have "documents s1 = documents s \<and> toasts s1 = toasts s"
      using ensureActiveConversation_frame [of None s c s1] by (simp add: handleUploadDocument_def)
    with awaitCreation_rejected_keeps [OF aw]
    have "documents s3 = documents s \<and> toasts s3 = toasts s" by simp
    with a show ?thesis
      by (simp add: uploadDocumentRun_def handleUploadDocumentEnsured_def notify_def)
  qed
  have C: "uploadDocumentRun file env s = s" if "uploadDocumentEnsure env s = None"
    using that by (simp add: uploadDocumentRun_def)
  from A B C show ?thesis by blast
qed

theorem handleUploadDocument_local_fallback_witness:
  "map_option fst
     (uploadDocumentEnsure
        \<lparr>uploadCreationOutcome = Inr (js ''c1''), uploadCreationDelay = 5,
         uploadOutcome = Inl NonError, uploadDelay = 7\<rparr>
        (initialPage False True 0))
     = Some (Inr \<lparr>conversationId = js ''c1'', created = True\<rparr>)
   \<and> js ''c1'' \<noteq> []
   \<and> documents
       (uploadDocumentRun \<lparr>name = js ''a.pdf'', size_f = 10\<rparr>
          \<lparr>uploadCreationOutcome = Inr (js ''c1''), uploadCreationDelay = 5,
           uploadOutcome = Inl NonError, uploadDelay = 7\<rparr>
          (initialPage False True 0))
     = [\<lparr>document_id = js ''12'', doc_conversation_id = js ''c1'', filename = js ''a.pdf'',
         file_size = Some 10, upload_date = ISOString 12, is_included = True,
         storage_path = None\<rparr>]"
proof -
  let ?env = "\<lparr>uploadCreationOutcome = Inr (js ''c1''), uploadCreationDelay = 5,
         uploadOutcome = Inl NonError, uploadDelay = 7\<rparr>"
  let ?s = "initialPage False True 0"
  have n: "numberToString 12 = js ''12''"
    by (simp add: numberToString.simps js_def)
  have e: "uploadDocumentEnsure ?env ?s
             = Some (Inr \<lparr>conversationId = js ''c1'', created = True\<rparr>,
                     snd (the (uploadDocumentEnsure ?env ?s)))"
    by (simp add: uploadDocumentEnsure_def handleUploadDocument_def
      ensureActiveConversation_def startCreation_def awaitCreation_def creationSettled_def
      ensureResumed_def initialPage_def truthy_def callApi_def advance_def now_def Let_def)
  have c: "clock (snd (the (uploadDocumentEnsure ?env ?s))) = 5"
          "documents (snd (the (uploadDocumentEnsure ?env ?s))) = []"
    by (simp_all add: uploadDocumentEnsure_def handleUploadDocument_def
      ensureActiveConversation_def startCreation_def awaitCreation_def creationSettled_def
      ensureResumed_def initialPage_def truthy_def callApi_def advance_def now_def Let_def)
  have j: "js ''c1'' \<noteq> []" by (simp add: js_def)
  from handleUploadDocument_local_fallback
    [where env = ?env and s = ?s and r = "\<lparr>conversationId = js ''c1'', created = True\<rparr>"
       and ?s3.0 = "snd (the (uploadDocumentEnsure ?env ?s))" and e = NonError
       and ?file = "\<lparr>name = js ''a.pdf'', size_f = 10\<rparr>"] e j
  have d: "documents
       (uploadDocumentRun \<lparr>name = js ''a.pdf'', size_f = 10\<rparr> ?env ?s)
     = [\<lparr>document_id = js ''12'', doc_conversation_id = js ''c1'', filename = js ''a.pdf'',
         file_size = Some 10, upload_date = ISOString 12, is_included = True,
         storage_path = None\<rparr>]"
    by (simp add: c n)
  have m: "map_option fst (uploadDocumentEnsure ?env ?s)
             = Some (Inr \<lparr>conversationId = js ''c1'', created = True\<rparr>)"
    by (subst e) simp
  from m j d show ?thesis by (intro conjI)
qed

section \<open>Sending a message\<close>


lemma remove_last_timer: "take (length xs) (xs @ [x]) @ drop (Suc (length xs)) (xs @ [x]) = xs"
  by simp




section \<open>Single-flight creation\<close>

lemma ensure_first_call:
  "\<not> truthy (selectedConversationId s) \<Longrightarrow> conversationCreationRef s = None \<Longrightarrow>
   ensureActiveConversation seed s = (Awaits (length (creationPromises s)), startCreation seed s)"
  by (simp add: ensureActiveConversation_def)

lemma ensure_joins_pending:
  "\<not> truthy (selectedConversationId s) \<Longrightarrow> conversationCreationRef s = Some p \<Longrightarrow>
   ensureActiveConversation seed s = (Awaits p, s)"
  by (simp add: ensureActiveConversation_def)

lemma ensureAll_join_pending:
  "\<not> truthy (selectedConversationId s) \<Longrightarrow> conversationCreationRef s = Some p \<Longrightarrow>
   ensureAll seeds s = (replicate (length seeds) (Awaits p), s)"
  by (induction seeds) (simp_all add: ensure_joins_pending)

lemma startCreation_fields:
  "selectedConversationId (startCreation seed s) = selectedConversationId s"
  "conversationCreationRef (startCreation seed s) = Some (length (creationPromises s))"
  "creationPromises (startCreation seed s)
     = creationPromises s
       @ [\<lparr>cp_title = deriveConversationTitle seed (length (conversations s) + 1),
           cp_isMobile = isMobile s, cp_state = Pending\<rparr>]"
  "apiCalls (startCreation seed s)
     = apiCalls s @ [ConversationsCreate
                       (deriveConversationTitle seed (length (conversations s) + 1))]"
  by (simp_all add: startCreation_def callApi_def Let_def)

lemma ensureAll_single_flight:
  assumes "\<not> truthy (selectedConversationId s)" "conversationCreationRef s = None"
  shows "ensureAll (seed # seeds) s
           = (replicate (Suc (length seeds)) (Awaits (length (creationPromises s))),
              startCreation seed s)"
  using assms ensureAll_join_pending [of "startCreation seed s" "length (creationPromises s)" seeds]
  by (simp add: ensure_first_call startCreation_fields)

lemma resumeAll_pending:
  "p < length (creationPromises s) \<Longrightarrow> cp_state (creationPromises s ! p) = Pending \<Longrightarrow>
   resumeAll (replicate (Suc n) (Awaits p)) s = None"
  by (simp add: awaitEnsure_def ensureResumed_def)

lemma resumeAll_settled:
  assumes "p < length (creationPromises s)"
    and "cp_state (creationPromises s ! p) = Fulfilled r \<and> res = Inr r
         \<or> cp_state (creationPromises s ! p) = Rejected e \<and> res = Inl e"
  shows "resumeAll (replicate n (Awaits p)) s
           = Some (replicate n res,
                   if n = 0 \<or> conversationCreationRef s \<noteq> Some p then s
                   else s\<lparr>conversationCreationRef := None\<rparr>)"
  using assms
proof (induction n arbitrary: s)
  case 0
  then show ?case by simp
next
  case (Suc n)
  let ?s' = "if conversationCreationRef s = Some p then s\<lparr>conversationCreationRef := None\<rparr> else s"
  have r: "ensureResumed p s = Some (res, ?s')"
    using Suc.prems by (auto simp: ensureResumed_def)
  have p': "p < length (creationPromises ?s')"
    "cp_state (creationPromises ?s' ! p) = Fulfilled r \<and> res = Inr r
         \<or> cp_state (creationPromises ?s' ! p) = Rejected e \<and> res = Inl e"
    using Suc.prems by simp_all
  have q: "conversationCreationRef ?s' \<noteq> Some p" by simp
  from Suc.IH [OF p'] q
  have "resumeAll (replicate n (Awaits p)) ?s' = Some (replicate n res, ?s')"
    by simp
  with r show ?case by (simp add: awaitEnsure_def)
qed

lemma creationSettled_pending:
  assumes "p < length (creationPromises s)" "cp_state (creationPromises s ! p) = Pending"
  shows "length (creationPromises (creationSettled p outcome s)) = length (creationPromises s)"
    "conversationCreationRef (creationSettled p outcome s) = conversationCreationRef s"
    "apiCalls (creationSettled p outcome s) = apiCalls s"
    "outcome = Inr cid \<Longrightarrow>
       cp_state (creationPromises (creationSettled p outcome s) ! p)
         = Fulfilled \<lparr>conversationId = cid, created = True\<rparr>"
    "outcome = Inl e \<Longrightarrow>
       cp_state (creationPromises (creationSettled p outcome s) ! p) = Rejected e
       \<and> selectedConversationId (creationSettled p outcome s) = selectedConversationId s
       \<and> conversations (creationSettled p outcome s) = conversations s"
  using assms by (auto simp: creationSettled_def Let_def split: sum.splits)


text \<open>
  Claim C1. Let \<open>N \<ge> 1\<close> calls of \<^verbatim>\<open>ensureActiveConversation\<close> be made, with any seeds, while
  no conversation is selected and no creation is in flight before the first. Then exactly one
  remote create call is issued, with the title derived from the first call's seed; all \<open>N\<close>
  callers await the same promise, and none can resume before it settles. When the creation
  settles, in success or in failure, and the callers resume, every caller receives the same
  result (the new conversation id with \<open>created = true\<close>) or the same error, no further remote
  call has been made, and the ref is cleared: after a failure a later call issues a fresh
  create call.
\<close>

theorem ensureActiveConversation_single_flight:
  assumes "\<not> truthy (selectedConversationId s)" "conversationCreationRef s = None" "seeds \<noteq> []"
  shows "let p = length (creationPromises s);
             calls = fst (ensureAll seeds s);
             s1 = snd (ensureAll seeds s);
             s2 = creationSettled p outcome (advance dt s1);
             result = (case outcome of
                         Inl e \<Rightarrow> Inl e
                       | Inr cid \<Rightarrow> Inr \<lparr>conversationId = cid, created = True\<rparr>);
             s3 = snd (the (resumeAll calls s2))
         in calls = replicate (length seeds) (Awaits p)
            \<and> apiCalls s1
                = apiCalls s @ [ConversationsCreate
                    (deriveConversationTitle (hd seeds) (length (conversations s) + 1))]
            \<and> conversationCreationRef s1 = Some p
            \<and> resumeAll calls s1 = None
            \<and> map_option fst (resumeAll calls s2) = Some (replicate (length seeds) result)
            \<and> conversationCreationRef s3 = None
            \<and> apiCalls s3 = apiCalls s1
            \<and> (isl outcome \<longrightarrow>
                  apiCalls (snd (ensureActiveConversation seed' s3))
                    = apiCalls s1 @ [ConversationsCreate
                        (deriveConversationTitle seed' (length (conversations s) + 1))])"
proof -
  obtain seed rest where seeds: "seeds = seed # rest" using assms(3) by (cases seeds) auto
  define p where "p = length (creationPromises s)"
  define s1 where "s1 = startCreation seed s"
  define s2 where "s2 = creationSettled p outcome (advance dt s1)"
  define result where "result = (case outcome of
                         Inl e \<Rightarrow> Inl e
                       | Inr cid \<Rightarrow> Inr \<lparr>conversationId = cid, created = True\<rparr>)"
  define n where "n = Suc (length rest)"
  have all: "ensureAll seeds s = (replicate n (Awaits p), s1)"
    unfolding seeds p_def s1_def n_def using assms(1,2) by (rule ensureAll_single_flight)
  have a1: "p < length (creationPromises (advance dt s1))"
    "cp_state (creationPromises (advance dt s1) ! p) = Pending"
    "conversationCreationRef (advance dt s1) = Some p"
    "apiCalls (advance dt s1) = apiCalls s1"
    "selectedConversationId (advance dt s1) = selectedConversationId s"
    "conversations (advance dt s1) = conversations s"
    by (simp_all add: s1_def p_def advance_def startCreation_fields startCreation_def callApi_def Let_def)
  have pend: "resumeAll (replicate n (Awaits p)) s1 = None"
    unfolding n_def by (rule resumeAll_pending) (simp_all add: s1_def p_def startCreation_fields)
  note cs = creationSettled_pending [OF a1(1,2), of outcome]
  have p2: "p < length (creationPromises s2)" "conversationCreationRef s2 = Some p"
    "apiCalls s2 = apiCalls s1"
    using cs(1,2,3) a1 by (simp_all add: s2_def)
  have st: "(\<exists>r. cp_state (creationPromises s2 ! p) = Fulfilled r \<and> result = Inr r)
         \<or> (\<exists>e. cp_state (creationPromises s2 ! p) = Rejected e \<and> result = Inl e)"
    using cs(4,5) by (cases outcome) (auto simp: s2_def result_def)
  then obtain r e where st': "cp_state (creationPromises s2 ! p) = Fulfilled r \<and> result = Inr r
         \<or> cp_state (creationPromises s2 ! p) = Rejected e \<and> result = Inl e"
    by blast
  have res: "resumeAll (replicate n (Awaits p)) s2
               = Some (replicate n result, s2\<lparr>conversationCreationRef := None\<rparr>)"
    using resumeAll_settled [OF p2(1) st', of n] p2(2) by (simp add: n_def)
  have fresh: "apiCalls (snd (ensureActiveConversation seed' (s2\<lparr>conversationCreationRef := None\<rparr>)))
                 = apiCalls s1 @ [ConversationsCreate
                     (deriveConversationTitle seed' (length (conversations s) + 1))]"
    if "isl outcome"
  proof -
    from that obtain e where "outcome = Inl e" by (cases outcome) auto
    from cs(5) [OF this] a1 have "selectedConversationId s2 = selectedConversationId s"
      "conversations s2 = conversations s" by (simp_all add: s2_def)
    with assms(1) p2(3) show ?thesis
      by (simp add: ensureActiveConversation_def startCreation_def callApi_def Let_def)
  qed
  have api1: "apiCalls s1
                = apiCalls s @ [ConversationsCreate
                    (deriveConversationTitle (hd seeds) (length (conversations s) + 1))]"
    by (simp add: s1_def seeds startCreation_fields)
  have ref1: "conversationCreationRef s1 = Some p"
    by (simp add: s1_def p_def startCreation_fields)
  have len: "length seeds = n" by (simp add: seeds n_def)
  show ?thesis
    unfolding Let_def p_def [symmetric] all fst_conv snd_conv s2_def [symmetric]
      result_def [symmetric] len res option.sel
    using pend api1 ref1 p2(3) fresh by simp
qed

theorem ensureActiveConversation_single_flight_witness:
  "\<not> truthy (selectedConversationId (initialPage False True 0))
   \<and> conversationCreationRef (initialPage False True 0) = None
   \<and> [Some (js ''hi''), None, Some (js ''there'')] \<noteq> []
   \<and> fst (ensureAll [Some (js ''hi''), None, Some (js ''there'')] (initialPage False True 0))
       = [Awaits 0, Awaits 0, Awaits 0]
   \<and> apiCalls (snd (ensureAll [Some (js ''hi''), None, Some (js ''there'')]
                      (initialPage False True 0)))
       = [ConversationsCreate (js ''hi'')]
   \<and> map_option fst
        (resumeAll [Awaits 0, Awaits 0, Awaits 0]
           (creationSettled 0 (Inr (js ''c1''))
              (advance 5 (snd (ensureAll [Some (js ''hi''), None, Some (js ''there'')]
                                 (initialPage False True 0))))))
       = Some [Inr \<lparr>conversationId = js ''c1'', created = True\<rparr>,
               Inr \<lparr>conversationId = js ''c1'', created = True\<rparr>,
               Inr \<lparr>conversationId = js ''c1'', created = True\<rparr>]"
proof -
  let ?s = "initialPage False True 0"
  let ?seeds = "[Some (js ''hi''), None, Some (js ''there'')]"
  have h: "\<not> truthy (selectedConversationId ?s)" "conversationCreationRef ?s = None"
    "?seeds \<noteq> []"
    by (simp_all add: initialPage_def truthy_def)
  have t: "deriveConversationTitle (Some (js ''hi'')) (Suc 0) = js ''hi''"
    by (simp add: deriveConversationTitle_def js_def trim_def trimEnd_def trimStart_def
        isWhiteSpace_def truthy_def MAX_AUTO_TITLE_LENGTH_def)
  have l: "length (creationPromises ?s) = 0" "conversations ?s = []"
    by (simp_all add: initialPage_def)
  have r3: "replicate (Suc (Suc (Suc 0))) x = [x, x, x]" for x :: 'a by simp
  note th = ensureActiveConversation_single_flight
    [OF h, where outcome = "Inr (js ''c1'')" and dt = 5, unfolded Let_def l]
  from th have f: "fst (ensureAll ?seeds ?s) = [Awaits 0, Awaits 0, Awaits 0]"
    by (simp add: r3 del: ensureAll.simps resumeAll.simps)
  from th have a: "apiCalls (snd (ensureAll ?seeds ?s)) = [ConversationsCreate (js ''hi'')]"
    by (simp add: t initialPage_def del: ensureAll.simps resumeAll.simps)
  from th [THEN conjunct2, THEN conjunct2, THEN conjunct2, THEN conjunct2, THEN conjunct1]
  have m: "map_option fst
        (resumeAll [Awaits 0, Awaits 0, Awaits 0]
           (creationSettled 0 (Inr (js ''c1'')) (advance 5 (snd (ensureAll ?seeds ?s)))))
       = Some [Inr \<lparr>conversationId = js ''c1'', created = True\<rparr>,
               Inr \<lparr>conversationId = js ''c1'', created = True\<rparr>,
               Inr \<lparr>conversationId = js ''c1'', created = True\<rparr>]"
    unfolding f by (simp add: r3 del: ensureAll.simps resumeAll.simps)
  from h f a m show ?thesis by (intro conjI)
qed

section \<open>Readiness\<close>

lemma readiness_simple [simp]:
  "readiness (notify t s) = readiness s"
  "readiness (callApi c s) = readiness s"
  "readiness (advance dt s) = readiness s"
  "readiness (s\<lparr>isMobile := m\<rparr>) = readiness s"
  "readiness (s\<lparr>user := u\<rparr>) = readiness s"
  "readiness (s\<lparr>previewDoc := pd\<rparr>) = readiness s"
  "readiness (s\<lparr>isConversationsSidebarOpen := b\<rparr>) = readiness s"
  "readiness (s\<lparr>isDocumentsPanelOpen := b\<rparr>) = readiness s"
  by (simp_all add: readiness_def notify_def callApi_def advance_def)

lemma readiness_loads [simp]:
  "readiness (snd (loadConversations s)) = readiness s"
  "readiness (loadConversationsSettled selectedId spinner outcome1 s) = readiness s"
  "readiness (loadMessages cid s) = readiness s"
  "readiness (loadMessagesSettled cid outcome2 s) = readiness s"
  "readiness (loadDocuments cid s) = readiness s"
  "readiness (loadDocumentsSettled cid outcome3 s) = readiness s"
  by (simp_all add: readiness_def loadConversations_def loadConversationsSettled_def
      loadMessages_def loadMessagesSettled_def loadDocuments_def loadDocumentsSettled_def
      notify_def callApi_def Let_def split: sum.splits list.splits)

lemma readiness_conversations [simp]:
  "readiness (handleCreateConversation s) = readiness s"
  "readiness (handleCreateConversationSettled cs m outcome1 s) = readiness s"
  "readiness (handleSelectConversation cid s) = readiness s"
  "readiness (handleDeleteConversation cid s) = readiness s"
  "readiness (snd (handleDeleteConversationSettled selectedId cid outcome2 s)) = readiness s"
  "readiness (handleRenameConversation cid newTitle s) = readiness s"
  "readiness (snd (handleRenameConversationSettled cid newTitle outcome2 s)) = readiness s"
  by (simp_all add: readiness_def handleCreateConversation_def
      handleCreateConversationSettled_def handleSelectConversation_def
      handleDeleteConversation_def handleDeleteConversationSettled_def
      handleRenameConversation_def handleRenameConversationSettled_def
      notify_def callApi_def Let_def split: sum.splits)

lemma readiness_ensure [simp]:
  "readiness (snd (ensureActiveConversation seed s)) = readiness s"
  "readiness (creationSettled p outcome s) = readiness s"
  by (simp_all add: readiness_def ensureActiveConversation_def startCreation_def
      creationSettled_def callApi_def Let_def split: sum.splits option.splits)


lemma readiness_send [simp]:
  "readiness (snd (handleSendMessage content_in s)) = readiness s"
  "readiness (snd (handleSendMessageEnsured content_in ensured s)) = readiness s"
  "readiness (handleSendMessageSettled cid outcome s) = readiness s"
  "readiness (mockReplyTimeout i s) = readiness s"
proof -
  have "readiness (snd (ensureActiveConversation (Some content_in) (s\<lparr>sendingMessage := True\<rparr>)))
          = readiness (s\<lparr>sendingMessage := True\<rparr>)"
    by (rule readiness_ensure)
  then show "readiness (snd (handleSendMessage content_in s)) = readiness s"
    by (simp add: handleSendMessage_def split_beta) (simp add: readiness_def)
qed (simp_all add: readiness_def handleSendMessageEnsured_def handleSendMessageSettled_def
      mockReplyTimeout_def notify_def callApi_def Let_def split: sum.splits prod.splits)

lemma readiness_documents [simp]:
  "readiness (snd (handleUploadDocument s)) = readiness s"
  "readiness (snd (handleUploadDocumentEnsured f ensured s)) = readiness s"
  "readiness (handleUploadDocumentSettled cid f outcome1 s) = readiness s"
  "readiness (snd (handleDeleteDocument documentId s)) = readiness s"
  "readiness (snd (handleDeleteDocumentSettled documentId outcome2 s)) = readiness s"
  "readiness (snd (handleToggleDocumentInclude documentId isIncluded s)) = readiness s"
  "readiness (snd (handleToggleDocumentIncludeSettled documentId isIncluded outcome2 s))
     = readiness s"
  "readiness (snd (handlePreviewDocument documentId s)) = readiness s"
  "readiness (handlePreviewDocumentSettled documentMeta outcome3 s) = readiness s"
  by (simp_all add: handleUploadDocument_def)
     (simp_all add: readiness_def handleUploadDocumentEnsured_def
      handleUploadDocumentSettled_def handleDeleteDocument_def handleDeleteDocumentSettled_def
      handleToggleDocumentInclude_def handleToggleDocumentIncludeSettled_def
      handlePreviewDocument_def handlePreviewDocumentSettled_def
      notify_def callApi_def Let_def split: sum.splits prod.splits)

lemma readiness_panels [simp]:
  "readiness (toggleConversationsSidebar s) = readiness s"
  "readiness (toggleDocumentsPanel s) = readiness s"
  "readiness (mobileEffect s) = readiness s"
  by (simp_all add: toggleConversationsSidebar_def toggleDocumentsPanel_def mobileEffect_def
      Let_def readiness_def)

lemma readiness_effects [simp]:
  "readiness (loadConversationsEffect s) = readiness s"
  "readiness (selectionEffect s) = readiness s"
  by (simp_all add: loadConversationsEffect_def selectionEffect_def)




lemma healthCheckProbe_not_ready:
  "\<not> backendReady s \<Longrightarrow> \<not> backendReady (healthCheckProbe paths msg s)"
  by (cases paths) (simp_all add: healthCheckFinish_def healthCheckFinally_def Let_def)

lemma runHealthCheck_not_ready:
  "\<not> backendReady s \<Longrightarrow> \<not> backendReady (runHealthCheck s)"
  by (simp add: runHealthCheck_def healthCheckProbe_not_ready)













lemmas run_defs =
  mount_def initialPage_def healthEffect_def runHealthCheck_def healthPaths_def
  mobileEffect_def loadConversationsEffect_def loadConversations_def selectionEffect_def
  step_def commitEffects_def advance_def healthProbeSettled_def healthCheckFinish_def
  healthCheckFinally_def truthy_def callApi_def notify_def Let_def




section \<open>Selection and the collections\<close>

text \<open>
  Claim C2, as stated, says that every change of the selection clears messages and
  documents before the new loads complete. \<^verbatim>\<open>handleSelectConversation\<close> only sets the
  selection: in the execution below the page loads conversations \<open>a\<close> and \<open>b\<close>, selects \<open>a\<close>,
  loads its messages, and the user selects \<open>b\<close>. The loads of \<open>b\<close> have been started and have
  not completed, \<open>b\<close> is selected, and the message list still holds the message of \<open>a\<close>.
\<close>

theorem selection_counterexample:
  "selectedConversationId
     (run [(120, HealthProbeSettled (Response 200)),
           (80, ConversationsLoaded None True
                  (Inr [\<lparr>conversation_id = js ''a'', title = js ''A'',
                          created_at = ServerString [], updated_at = ServerString []\<rparr>,
                        \<lparr>conversation_id = js ''b'', title = js ''B'',
                          created_at = ServerString [], updated_at = ServerString []\<rparr>])),
           (60, MessagesLoaded (js ''a'')
                  (Inr [\<lparr>message_id = Some (js ''m1''), msg_conversation_id = js ''a'',
                          role = User, content = js ''hello'', timestamp = None\<rparr>])),
           (5, DocumentsLoaded (js ''a'') (Inr [])),
           (3000, SelectConversation (js ''b''))]
        (mount False True 0))
     = Some (js ''b'')
   \<and> messages
     (run [(120, HealthProbeSettled (Response 200)),
           (80, ConversationsLoaded None True
                  (Inr [\<lparr>conversation_id = js ''a'', title = js ''A'',
                          created_at = ServerString [], updated_at = ServerString []\<rparr>,
                        \<lparr>conversation_id = js ''b'', title = js ''B'',
                          created_at = ServerString [], updated_at = ServerString []\<rparr>])),
           (60, MessagesLoaded (js ''a'')
                  (Inr [\<lparr>message_id = Some (js ''m1''), msg_conversation_id = js ''a'',
                          role = User, content = js ''hello'', timestamp = None\<rparr>])),
           (5, DocumentsLoaded (js ''a'') (Inr [])),
           (3000, SelectConversation (js ''b''))]
        (mount False True 0))
     = [\<lparr>message_id = Some (js ''m1''), msg_conversation_id = js ''a'',
         role = User, content = js ''hello'', timestamp = None\<rparr>]
   \<and> apiCalls
     (run [(120, HealthProbeSettled (Response 200)),
           (80, ConversationsLoaded None True
                  (Inr [\<lparr>conversation_id = js ''a'', title = js ''A'',
                          created_at = ServerString [], updated_at = ServerString []\<rparr>,
                        \<lparr>conversation_id = js ''b'', title = js ''B'',
                          created_at = ServerString [], updated_at = ServerString []\<rparr>])),
           (60, MessagesLoaded (js ''a'')
                  (Inr [\<lparr>message_id = Some (js ''m1''), msg_conversation_id = js ''a'',
                          role = User, content = js ''hello'', timestamp = None\<rparr>])),
           (5, DocumentsLoaded (js ''a'') (Inr [])),
           (3000, SelectConversation (js ''b''))]
        (mount False True 0))
     = [ConversationsList, MessagesList (js ''a''), DocumentsList (js ''a''),
        MessagesList (js ''b''), DocumentsList (js ''b'')]
   \<and> js ''a'' \<noteq> js ''b''"
  by (simp add: run_defs loadConversationsSettled_def loadMessagesSettled_def
      loadDocumentsSettled_def loadMessages_def loadDocuments_def handleSelectConversation_def
      js_def)


text \<open>
  Claim C2, amended. When the selection changes because \<^verbatim>\<open>ensureActiveConversation\<close> created
  a conversation, or because the selected conversation was deleted, messages and documents
  are cleared in the same update. Every change of the selection to a non-empty id starts
  the message load and the document load of that id, and a render in which the selection
  did not change starts neither. A load that completes replaces its whole collection by what
  it loaded for the conversation it was started for, or by its fallback (the greeting of
  that conversation, no documents); nothing is merged with what was held before.
\<close>

theorem selection_cascade:
  "(p < length (creationPromises s) \<and> cp_state (creationPromises s ! p) = Pending \<longrightarrow>
      selectedConversationId (creationSettled p (Inr cid) s) = Some cid
      \<and> messages (creationSettled p (Inr cid) s) = []
      \<and> documents (creationSettled p (Inr cid) s) = [])
   \<and> messages (snd (handleDeleteConversationSettled (Some cid) cid (Inr ()) s)) = []
   \<and> documents (snd (handleDeleteConversationSettled (Some cid) cid (Inr ()) s)) = []
   \<and> (selectedConversationId s \<noteq> selectedConversationId old
        \<and> truthy (selectedConversationId s) \<longrightarrow>
      apiCalls (commitEffects old s)
        = apiCalls s
          @ (if (user s \<noteq> user old \<or> backendReady s \<noteq> backendReady old)
                \<and> user s \<and> backendReady s
             then [ConversationsList] else [])
          @ [MessagesList (the (selectedConversationId s)),
             DocumentsList (the (selectedConversationId s))])
   \<and> (selectedConversationId s = selectedConversationId old
        \<or> \<not> truthy (selectedConversationId s) \<longrightarrow>
      filter (\<lambda>c. c \<noteq> ConversationsList) (apiCalls (commitEffects old s))
        = filter (\<lambda>c. c \<noteq> ConversationsList) (apiCalls s))
   \<and> messages (loadMessagesSettled cid (Inr loadedMessages) s) = loadedMessages
   \<and> messages (loadMessagesSettled cid (Inl e) s) = [mockMessage cid s]
   \<and> msg_conversation_id (mockMessage cid s) = cid
   \<and> documents (loadDocumentsSettled cid (Inr loadedDocuments) s) = loadedDocuments
   \<and> documents (loadDocumentsSettled cid (Inl e) s) = []"
proof -
  have hc: "apiCalls (healthEffect s) = apiCalls s" for s
    by (cases "healthPaths")
       (simp_all add: healthEffect_def runHealthCheck_def healthPaths_def Let_def)
  have mc: "apiCalls (mobileEffect s) = apiCalls s" for s
    by (simp add: mobileEffect_def)
  have sel: "selectedConversationId (healthEffect s) = selectedConversationId s"
    "selectedConversationId (mobileEffect s) = selectedConversationId s"
    "selectedConversationId (loadConversationsEffect s) = selectedConversationId s" for s
    by (simp_all add: healthEffect_def runHealthCheck_def healthPaths_def mobileEffect_def
        loadConversationsEffect_def loadConversations_def callApi_def Let_def)
  have lc: "apiCalls (loadConversationsEffect s)
              = apiCalls s @ (if user s \<and> backendReady s then [ConversationsList] else [])"
    for s
    by (simp add: loadConversationsEffect_def loadConversations_def callApi_def Let_def)
  have ur: "user (healthEffect s) = user s" "user (mobileEffect s) = user s"
    "backendReady (mobileEffect s) = backendReady s"
    "backendReady (healthEffect s) = backendReady s" for s
    using runHealthCheck_not_ready [of "s\<lparr>healthInterval := False\<rparr>"]
    by (auto simp: healthEffect_def runHealthCheck_def healthPaths_def mobileEffect_def Let_def)
  have se: "apiCalls (selectionEffect s)
              = apiCalls s @ (if truthy (selectedConversationId s)
                              then [MessagesList (the (selectedConversationId s)),
                                    DocumentsList (the (selectedConversationId s))]
                              else [])" for s
    by (simp add: selectionEffect_def loadMessages_def loadDocuments_def callApi_def)
  have ce: "apiCalls (commitEffects old s)
      = apiCalls s
        @ (if (user s \<noteq> user old \<or> backendReady s \<noteq> backendReady old)
              \<and> user s \<and> backendReady s
           then [ConversationsList] else [])
        @ (if selectedConversationId s \<noteq> selectedConversationId old
              \<and> truthy (selectedConversationId s)
           then [MessagesList (the (selectedConversationId s)),
                 DocumentsList (the (selectedConversationId s))]
           else [])"
    by (simp add: commitEffects_def Let_def hc mc sel lc ur se)
  show ?thesis
    by (simp add: ce creationSettled_def handleDeleteConversationSettled_def
        loadMessagesSettled_def loadDocumentsSettled_def mockMessage_def notify_def Let_def)
qed


theorem selection_cascade_witness:
  "(0::nat) < length (creationPromises (startCreation None (initialPage False True 0)))
   \<and> cp_state (creationPromises (startCreation None (initialPage False True 0)) ! 0) = Pending
   \<and> messages (creationSettled 0 (Inr (js ''c1''))
        ((startCreation None (initialPage False True 0))
           \<lparr>messages := [mockMessage (js ''1'') (initialPage False True 0)]\<rparr>)) = []
   \<and> selectedConversationId (handleSelectConversation (js ''b'') (initialPage False True 0))
       \<noteq> selectedConversationId (initialPage False True 0)
   \<and> truthy (selectedConversationId
        (handleSelectConversation (js ''b'') (initialPage False True 0)))
   \<and> apiCalls (commitEffects (initialPage False True 0)
        (handleSelectConversation (js ''b'') (initialPage False True 0)))
       = [MessagesList (js ''b''), DocumentsList (js ''b'')]
   \<and> filter (\<lambda>c. c \<noteq> ConversationsList)
        (apiCalls (commitEffects (initialPage False True 0)
           ((initialPage False True 0)\<lparr>isDocumentsPanelOpen := False\<rparr>))) = []"
proof -
  let ?s0 = "initialPage False True 0"
  let ?s1 = "(startCreation None ?s0)\<lparr>messages := [mockMessage (js ''1'') ?s0]\<rparr>"
  let ?s2 = "handleSelectConversation (js ''b'') ?s0"
  have p: "0 < length (creationPromises ?s1) \<and> cp_state (creationPromises ?s1 ! 0) = Pending"
    by (simp add: startCreation_def initialPage_def callApi_def Let_def)
  have q: "selectedConversationId ?s2 \<noteq> selectedConversationId ?s0
           \<and> truthy (selectedConversationId ?s2)"
    by (simp add: handleSelectConversation_def initialPage_def truthy_def js_def)
  have q': "selectedConversationId (?s0\<lparr>isDocumentsPanelOpen := False\<rparr>)
              = selectedConversationId ?s0
            \<or> \<not> truthy (selectedConversationId (?s0\<lparr>isDocumentsPanelOpen := False\<rparr>))"
    by simp
  note th = selection_cascade
  from th [where s = ?s1 and p = 0 and cid = "js ''c1''"] p
  have a: "messages (creationSettled 0 (Inr (js ''c1'')) ?s1) = []" by blast
  from th [where s = ?s2 and old = ?s0] q
  have b: "apiCalls (commitEffects ?s0 ?s2) = [MessagesList (js ''b''), DocumentsList (js ''b'')]"
    by (simp add: handleSelectConversation_def initialPage_def)
  from th [where s = "?s0\<lparr>isDocumentsPanelOpen := False\<rparr>" and old = ?s0] q'
  have "filter (\<lambda>c. c \<noteq> ConversationsList)
          (apiCalls (commitEffects ?s0 (?s0\<lparr>isDocumentsPanelOpen := False\<rparr>)))
        = filter (\<lambda>c. c \<noteq> ConversationsList)
            (apiCalls (?s0\<lparr>isDocumentsPanelOpen := False\<rparr>))"
    by blast
  then have c: "filter (\<lambda>c. c \<noteq> ConversationsList)
          (apiCalls (commitEffects ?s0 (?s0\<lparr>isDocumentsPanelOpen := False\<rparr>))) = []"
    by (simp add: initialPage_def)
  from p q a b c show ?thesis
    by (simp add: startCreation_def initialPage_def callApi_def Let_def)
qed

end
